theory Spec2Isabelle
  imports Main
begin

section \<open>Strings and the built-ins of the browser\<close>

text \<open>
  A JavaScript string is a sequence of UTF-16 code units, modelled as a list of naturals.
  \<open>str\<close> embeds an ASCII literal.  The user-facing messages of \<^verbatim>\<open>app.js\<close> are
  Russian; they are given by their code units, with an English gloss.
\<close>

type_synonym jstring = "nat list"

definition str :: "string \<Rightarrow> jstring" where
  "str s = map of_char s"

text \<open>The white space and line terminators that \<^verbatim>\<open>String.prototype.trim\<close> strips.\<close>

definition is_white_space :: "nat \<Rightarrow> bool" where
  "is_white_space c \<longleftrightarrow>
     c \<in> {9, 10, 11, 12, 13, 32, 160, 5760, 8232, 8233, 8239, 8287, 12288, 65279}
     \<or> (8192 \<le> c \<and> c \<le> 8202)"

definition trim :: "jstring \<Rightarrow> jstring" where
  "trim s = rev (dropWhile is_white_space (rev (dropWhile is_white_space s)))"

text \<open>"Oshibka zaprosa": request error, the fallback message of \<^verbatim>\<open>API.request\<close>.\<close>

definition request_error_text :: jstring where
  "request_error_text =
     [1054, 1096, 1080, 1073, 1082, 1072, 32, 1079, 1072, 1087, 1088, 1086, 1089, 1072]"

text \<open>"Dlya vklyuchennoy dolivki neobkhodimo ukazat' otstup i ob''yom": with DCA enabled
  the offset and the quantity are required.\<close>

definition dca_required_text :: jstring where
  "dca_required_text =
     [1044, 1083, 1103, 32, 1074, 1082, 1083, 1102, 1095, 1077, 1085, 1085, 1086, 1081, 32,
      1076, 1086, 1083, 1080, 1074, 1082, 1080, 32, 1085, 1077, 1086, 1073, 1093, 1086, 1076,
      1080, 1084, 1086, 32, 1091, 1082, 1072, 1079, 1072, 1090, 1100, 32, 1086, 1090, 1089,
      1090, 1091, 1087, 32, 1080, 32, 1086, 1073, 1098, 1105, 1084]"

text \<open>"Mozhno zadat' ne bolee 10 stop-lossov": at most 10 stop-losses can be set.\<close>

definition max_stops_text :: jstring where
  "max_stops_text =
     [1052, 1086, 1078, 1085, 1086, 32, 1079, 1072, 1076, 1072, 1090, 1100, 32, 1085, 1077,
      32, 1073, 1086, 1083, 1077, 1077, 32, 49, 48, 32, 1089, 1090, 1086, 1087, 45, 1083,
      1086, 1089, 1089, 1086, 1074]"

text \<open>"Nastroyki obnovleny": settings updated.\<close>

definition settings_updated_text :: jstring where
  "settings_updated_text =
     [1053, 1072, 1089, 1090, 1088, 1086, 1081, 1082, 1080, 32, 1086, 1073, 1085, 1086, 1074,
      1083, 1077, 1085, 1099]"

text \<open>"Rabotaet" (running) and "Ostanovlen" (stopped).\<close>

definition running_text :: jstring where
  "running_text = [1056, 1072, 1073, 1086, 1090, 1072, 1077, 1090]"

definition stopped_text :: jstring where
  "stopped_text = [1054, 1089, 1090, 1072, 1085, 1086, 1074, 1083, 1077, 1085]"

text \<open>
  The inputs whose \<^verbatim>\<open>value\<close> the script writes.  Reading an input back gives the string
  that was assigned after the value sanitization of the input's type (a number input
  turns a string that is no valid floating-point number into the empty string); the page
  template that fixes those types is not part of the script.
\<close>

datatype field = Entry_amount | Tp_offset | Tp_volume | Sl_offset | Sl_volume
  | Dca_offset | Dca_quantity

text \<open>
  What the script takes from the language and the browser, for a type \<open>'n\<close> of numbers:
  the conversion of a number to a string (template literals, assignment to
  \<^verbatim>\<open>value\<close>), \<^verbatim>\<open>parseFloat\<close>, \<^verbatim>\<open>toFixed(2)\<close>, the literal
  \<^verbatim>\<open>0\<close>, the truthiness of a number, \<^verbatim>\<open>toLowerCase\<close>,
  \<^verbatim>\<open>new Date(t).toLocaleString()\<close>, the value sanitization of inputs, and the
  selector engine behind \<^verbatim>\<open>document.querySelector\<close>.  For the text of a selector,
  \<open>css_match\<close> is \<open>None\<close> when the engine refuses the text as no valid selector, and
  otherwise the test that the \<^verbatim>\<open>data-symbol\<close> of an instrument card has to pass
  for the card to match.
\<close>

record 'n builtins =
  number_to_string :: "'n \<Rightarrow> jstring"
  parseFloat :: "jstring \<Rightarrow> 'n"
  toFixed2 :: "'n \<Rightarrow> jstring"
  number_zero :: "'n"
  number_truthy :: "'n \<Rightarrow> bool"
  toLowerCase :: "jstring \<Rightarrow> jstring"
  date_toLocaleString :: "jstring \<Rightarrow> jstring"
  input_value :: "field \<Rightarrow> jstring \<Rightarrow> jstring"
  css_match :: "jstring \<Rightarrow> (jstring \<Rightarrow> bool) option"

section \<open>The data model\<close>

record 'n take_profit =
  tp_label :: jstring
  tp_offset_percent :: 'n
  tp_volume_percent :: 'n

record 'n stop_loss =
  sl_offset_percent :: 'n
  sl_volume_percent :: 'n

record 'n tp1_dca =
  enabled :: bool
  dca_offset_percent :: "'n option"
  dca_quantity :: "'n option"

record 'n instrument_config =
  entry_amount :: 'n
  take_profits :: "'n take_profit list"
  stop_losses :: "'n stop_loss list"
  tp1_dca :: "'n tp1_dca"

text \<open>The object \<^verbatim>\<open>collectConfig\<close> returns: the config and the card's symbol.\<close>

record 'n config_payload = "'n instrument_config" +
  symbol :: jstring

record 'n order =
  order_id :: jstring
  order_type :: jstring
  order_side :: jstring
  order_quantity :: "'n option"
  order_status :: jstring

record 'n dca_order =
  dca_order_id :: jstring
  dca_order_side :: jstring
  dca_order_quantity :: "'n option"
  dca_order_status :: jstring

record log_entry =
  timestamp :: jstring
  level :: jstring
  message :: jstring

record 'n positions =
  LONG :: "'n option"
  SHORT :: "'n option"

record 'n instrument_state =
  state_symbol :: jstring
  config :: "'n instrument_config"
  is_running :: bool
  positions :: "'n positions"
  open_orders :: "'n order list"
  dca_orders :: "'n dca_order list"
  logs :: "log_entry list"

record 'n manager_state =
  instruments :: "'n instrument_state list"

section \<open>The API client\<close>

text \<open>
  \<open>SyntaxError\<close> stands for the error of that name that \<^verbatim>\<open>response.json()\<close>
  rejects with and for the exception of that name that \<^verbatim>\<open>querySelector\<close> throws.
\<close>

datatype js_error = Error jstring | TypeError | SyntaxError

text \<open>
  What \<^verbatim>\<open>API.request\<close> observes of a parsed response body: the value
  \<^verbatim>\<open>null\<close>; a value with a \<^verbatim>\<open>detail\<close> property (an error body), seen
  through that property; or a value of the shape the caller expects, which has no
  \<^verbatim>\<open>detail\<close> property.  \<open>D_compound s\<close> is an array or an object whose conversion
  to a string is \<open>s\<close>.
\<close>

datatype 'n detail = D_undefined | D_null | D_bool bool | D_number 'n | D_string jstring
  | D_compound jstring

datatype ('n, 'a) json = J_null | J_object "'n detail" | J_payload 'a

text \<open>\<open>body_json\<close> is \<open>None\<close> when the body is no JSON text: \<^verbatim>\<open>response.json()\<close> rejects.\<close>

record ('n, 'a) response =
  status :: nat
  statusText :: jstring
  body_json :: "('n, 'a) json option"

datatype ('n, 'a) fetch_outcome = Fetch_rejected js_error
  | Fetch_resolved "('n, 'a) response"

record 'n options =
  opt_http_method :: "jstring option"
  opt_body :: "'n config_payload option"
  opt_headers :: "(jstring \<times> jstring) list option"

record 'n request =
  req_url :: jstring
  req_http_method :: "jstring option"
  req_headers :: "(jstring \<times> jstring) list"
  req_body :: "'n config_payload option"

text \<open>
  What a handler does besides changing the card: a request sent, a blocking
  notification with a literal text, \<^verbatim>\<open>alert(error.message)\<close> for a caught error, and
  \<^verbatim>\<open>event.preventDefault()\<close>.
\<close>

datatype 'n effect = Fetch "'n request" | Alert jstring | Alert_message js_error
  | Prevent_default

definition response_ok :: "('n, 'a) response \<Rightarrow> bool" where
  "response_ok r \<longleftrightarrow> 200 \<le> status r \<and> status r \<le> 299"

fun detail_truthy :: "'n builtins \<Rightarrow> 'n detail \<Rightarrow> bool" where
  "detail_truthy env D_undefined = False"
| "detail_truthy env D_null = False"
| "detail_truthy env (D_bool b) = b"
| "detail_truthy env (D_number n) = number_truthy env n"
| "detail_truthy env (D_string s) = (s \<noteq> [])"
| "detail_truthy env (D_compound s) = True"

fun detail_to_string :: "'n builtins \<Rightarrow> 'n detail \<Rightarrow> jstring" where
  "detail_to_string env D_undefined = str ''undefined''"
| "detail_to_string env D_null = str ''null''"
| "detail_to_string env (D_bool b) = (if b then str ''true'' else str ''false'')"
| "detail_to_string env (D_number n) = number_to_string env n"
| "detail_to_string env (D_string s) = s"
| "detail_to_string env (D_compound s) = s"

text \<open>
  \<^verbatim>\<open>detail.detail\<close>, where \<^verbatim>\<open>detail\<close> is the parsed body or, when parsing
  failed, the empty object of the \<^verbatim>\<open>catch\<close>.  Reading a property of
  \<^verbatim>\<open>null\<close> throws.
\<close>

fun detail_property :: "('n, 'a) json option \<Rightarrow> js_error + 'n detail" where
  "detail_property None = Inr D_undefined"
| "detail_property (Some J_null) = Inl TypeError"
| "detail_property (Some (J_object d)) = Inr d"
| "detail_property (Some (J_payload x)) = Inr D_undefined"

text \<open>
  \<^verbatim>\<open>API.request(url, options)\<close>, given the outcome of its one \<^verbatim>\<open>fetch\<close>: the
  settled value of the promise (\<open>Inl\<close> a rejection) and the request sent.  In the
  request, the keys of \<^verbatim>\<open>options\<close> are spread last, so its \<^verbatim>\<open>headers\<close>, when
  given, replace the merged ones.
\<close>

definition API_request ::
  "'n builtins \<Rightarrow> ('n, 'a) fetch_outcome \<Rightarrow> jstring \<Rightarrow> 'n options
     \<Rightarrow> (js_error + ('n, 'a) json) \<times> 'n effect list" where
  "API_request env outcome url options =
     (let init = \<lparr>req_url = url, req_http_method = opt_http_method options,
            req_headers = (case opt_headers options of
                None \<Rightarrow> [(str ''Content-Type'', str ''application/json'')]
              | Some hs \<Rightarrow> hs),
            req_body = opt_body options\<rparr>
      in ((case outcome of
             Fetch_rejected e \<Rightarrow> Inl e
           | Fetch_resolved response \<Rightarrow>
               if \<not> response_ok response then
                 (case detail_property (body_json response) of
                    Inl e \<Rightarrow> Inl e
                  | Inr d \<Rightarrow>
                      Inl (Error
                        (if detail_truthy env d then detail_to_string env d
                         else if statusText response \<noteq> [] then statusText response
                         else request_error_text)))
               else if status response = 204 then Inr J_null
               else (case body_json response of
                       None \<Rightarrow> Inl SyntaxError
                     | Some j \<Rightarrow> Inr j)),
          [Fetch init]))"

definition no_options :: "'n options" where
  "no_options = \<lparr>opt_http_method = None, opt_body = None, opt_headers = None\<rparr>"

definition post :: "'n options" where
  "post = \<lparr>opt_http_method = Some (str ''POST''), opt_body = None, opt_headers = None\<rparr>"

definition listInstruments ::
  "'n builtins \<Rightarrow> ('n, 'a) fetch_outcome \<Rightarrow> (js_error + ('n, 'a) json) \<times> 'n effect list" where
  "listInstruments env outcome = API_request env outcome (str ''/api/instruments'') no_options"

definition updateConfig ::
  "'n builtins \<Rightarrow> ('n, 'a) fetch_outcome \<Rightarrow> jstring \<Rightarrow> 'n config_payload
     \<Rightarrow> (js_error + ('n, 'a) json) \<times> 'n effect list" where
  "updateConfig env outcome smb payload =
     API_request env outcome (str ''/api/instruments/'' @ smb @ str ''/config'')
       \<lparr>opt_http_method = Some (str ''POST''), opt_body = Some payload, opt_headers = None\<rparr>"

definition start ::
  "'n builtins \<Rightarrow> ('n, 'a) fetch_outcome \<Rightarrow> jstring
     \<Rightarrow> (js_error + ('n, 'a) json) \<times> 'n effect list" where
  "start env outcome smb =
     API_request env outcome (str ''/api/instruments/'' @ smb @ str ''/start'') post"

definition stop ::
  "'n builtins \<Rightarrow> ('n, 'a) fetch_outcome \<Rightarrow> jstring
     \<Rightarrow> (js_error + ('n, 'a) json) \<times> 'n effect list" where
  "stop env outcome smb =
     API_request env outcome (str ''/api/instruments/'' @ smb @ str ''/stop'') post"

definition close ::
  "'n builtins \<Rightarrow> ('n, 'a) fetch_outcome \<Rightarrow> jstring
     \<Rightarrow> (js_error + ('n, 'a) json) \<times> 'n effect list" where
  "close env outcome smb =
     API_request env outcome (str ''/api/instruments/'' @ smb @ str ''/close'') post"

definition startAll ::
  "'n builtins \<Rightarrow> ('n, 'a) fetch_outcome \<Rightarrow> (js_error + ('n, 'a) json) \<times> 'n effect list" where
  "startAll env outcome = API_request env outcome (str ''/api/instruments/start_all'') post"

definition stopAll ::
  "'n builtins \<Rightarrow> ('n, 'a) fetch_outcome \<Rightarrow> (js_error + ('n, 'a) json) \<times> 'n effect list" where
  "stopAll env outcome = API_request env outcome (str ''/api/instruments/stop_all'') post"

definition refreshInstrument ::
  "'n builtins \<Rightarrow> ('n, 'a) fetch_outcome \<Rightarrow> jstring
     \<Rightarrow> (js_error + ('n, 'a) json) \<times> 'n effect list" where
  "refreshInstrument env outcome smb =
     API_request env outcome (str ''/api/instruments/'' @ smb) no_options"

section \<open>The card\<close>

text \<open>
  The DOM is the only state of the script.  A card is modelled by the elements the script
  reads or writes: for an input its \<^verbatim>\<open>value\<close>, for a checkbox its
  \<^verbatim>\<open>checked\<close>, for the other elements their text or their \<^verbatim>\<open>innerHTML\<close>.
  The three elements that \<^verbatim>\<open>renderInstrument\<close> tests before it writes them are
  optional.  A child of the \<^verbatim>\<open>.stop-loss-list\<close> container is a stop-loss row or
  some other element that holds no row.  The tab buttons and tab sections, which only
  \<^verbatim>\<open>setupTabs\<close> touches, are left out.
\<close>

record tp_row =
  row_label :: jstring
  tp_offset_input :: jstring
  tp_volume_input :: jstring

datatype sl_child = Stop_loss_row jstring jstring | Other_element

record card =
  data_symbol :: jstring
  entry_amount_input :: jstring
  tp_rows :: "tp_row list"
  stop_loss_list :: "sl_child list"
  dca_enabled_checked :: bool
  dca_offset_input :: jstring
  dca_quantity_input :: jstring
  status_indicator_running :: jstring
  status_indicator_text :: jstring
  status_text :: jstring
  position_LONG :: jstring
  position_SHORT :: jstring
  open_orders_tbody :: "jstring option"
  dca_table_tbody :: "jstring option"
  log_list_ul :: "jstring option"

subsection \<open>Stop-loss rows\<close>

text \<open>
  \<^verbatim>\<open>createStopLossRow(offset = "", volume = "")\<close>: an argument that is left out is
  \<open>None\<close> and takes the default; a number is written into the \<^verbatim>\<open>value\<close>
  attribute of a number input.  The empty string is its own sanitization for every type
  of input.
\<close>

definition createStopLossRow :: "'n builtins \<Rightarrow> 'n option \<Rightarrow> 'n option \<Rightarrow> sl_child" where
  "createStopLossRow env offset volume =
     Stop_loss_row
       (case offset of None \<Rightarrow> [] | Some x \<Rightarrow> input_value env Sl_offset (number_to_string env x))
       (case volume of None \<Rightarrow> [] | Some x \<Rightarrow> input_value env Sl_volume (number_to_string env x))"

text \<open>\<^verbatim>\<open>querySelectorAll(".stop-loss-row")\<close> keeps the rows among the children.\<close>

fun collectStopLosses :: "'n builtins \<Rightarrow> sl_child list \<Rightarrow> 'n stop_loss list" where
  "collectStopLosses env [] = []"
| "collectStopLosses env (Stop_loss_row offset volume # container) =
     \<lparr>sl_offset_percent = parseFloat env offset, sl_volume_percent = parseFloat env volume\<rparr>
       # collectStopLosses env container"
| "collectStopLosses env (Other_element # container) = collectStopLosses env container"

text \<open>The container is emptied, then one row is appended for each stop-loss.\<close>

definition renderStopLosses :: "'n builtins \<Rightarrow> 'n stop_loss list \<Rightarrow> sl_child list" where
  "renderStopLosses env stopLosses =
     foldl (\<lambda>container sl. container @
              [createStopLossRow env (Some (sl_offset_percent sl)) (Some (sl_volume_percent sl))])
       [] stopLosses"

subsection \<open>Collecting the config\<close>

definition collectConfig :: "'n builtins \<Rightarrow> card \<Rightarrow> js_error + 'n config_payload" where
  "collectConfig env crd =
     (let entryAmount = parseFloat env (entry_amount_input crd);
          takeProfits = map (\<lambda>row. \<lparr>tp_label = row_label row,
                tp_offset_percent = parseFloat env (tp_offset_input row),
                tp_volume_percent = parseFloat env (tp_volume_input row)\<rparr>) (tp_rows crd);
          stopLosses = collectStopLosses env (stop_loss_list crd);
          dcaEnabled = dca_enabled_checked crd;
          dcaOffsetValue = trim (dca_offset_input crd);
          dcaQuantityValue = trim (dca_quantity_input crd)
      in if dcaEnabled \<and> (dcaOffsetValue = [] \<or> dcaQuantityValue = [])
         then Inl (Error dca_required_text)
         else Inr \<lparr>entry_amount = entryAmount, take_profits = takeProfits,
                stop_losses = stopLosses,
                tp1_dca = \<lparr>enabled = dcaEnabled,
                  dca_offset_percent =
                    (if dcaOffsetValue \<noteq> [] then Some (parseFloat env dcaOffsetValue) else None),
                  dca_quantity =
                    (if dcaQuantityValue \<noteq> [] then Some (parseFloat env dcaQuantityValue)
                     else None)\<rparr>,
                symbol = data_symbol crd\<rparr>)"

subsection \<open>Rendering\<close>

text \<open>
  The loop over the \<^verbatim>\<open>.tp-row\<close> elements.  \<^verbatim>\<open>take_profits[index]\<close> is
  \<^verbatim>\<open>undefined\<close> past the end of the array, and reading its
  \<^verbatim>\<open>offset_percent\<close> throws: the loop stops there, with the rows before it written.
\<close>

definition write_tp_row :: "'n builtins \<Rightarrow> 'n take_profit \<Rightarrow> tp_row \<Rightarrow> tp_row" where
  "write_tp_row env tp row =
     row\<lparr>tp_offset_input :=
           input_value env Tp_offset (number_to_string env (tp_offset_percent tp)),
         tp_volume_input :=
           input_value env Tp_volume (number_to_string env (tp_volume_percent tp))\<rparr>"

fun render_tp_rows ::
  "'n builtins \<Rightarrow> 'n take_profit list \<Rightarrow> nat \<Rightarrow> tp_row list \<Rightarrow> tp_row list \<times> js_error option" where
  "render_tp_rows env tps index [] = ([], None)"
| "render_tp_rows env tps index (row # rows) =
     (if index < length tps then
        (let tp = tps ! index;
             row' = write_tp_row env tp row;
             (rows', e) = render_tp_rows env tps (Suc index) rows
         in (row' # rows', e))
      else (row # rows, Some TypeError))"

definition render_stops_and_dca :: "'n builtins \<Rightarrow> card \<Rightarrow> 'n instrument_state \<Rightarrow> card" where
  "render_stops_and_dca env crd data =
     crd\<lparr>stop_loss_list := renderStopLosses env (stop_losses (config data)),
          dca_enabled_checked := enabled (tp1_dca (config data)),
          dca_offset_input :=
            (case dca_offset_percent (tp1_dca (config data)) of
               None \<Rightarrow> []
             | Some x \<Rightarrow> input_value env Dca_offset (number_to_string env x)),
          dca_quantity_input :=
            (case dca_quantity (tp1_dca (config data)) of
               None \<Rightarrow> []
             | Some x \<Rightarrow> input_value env Dca_quantity (number_to_string env x))\<rparr>"

definition render_status :: "card \<Rightarrow> 'n instrument_state \<Rightarrow> card" where
  "render_status crd data =
     crd\<lparr>status_indicator_running := (if is_running data then str ''true'' else str ''false''),
          status_indicator_text := (if is_running data then running_text else stopped_text),
          status_text := (if is_running data then running_text else stopped_text)\<rparr>"

definition render_positions :: "'n builtins \<Rightarrow> card \<Rightarrow> 'n instrument_state \<Rightarrow> card" where
  "render_positions env crd data =
     (let longPosition = (case LONG (positions data) of None \<Rightarrow> number_zero env | Some x \<Rightarrow> x);
          shortPosition = (case SHORT (positions data) of None \<Rightarrow> number_zero env | Some x \<Rightarrow> x)
      in crd\<lparr>position_LONG := toFixed2 env longPosition,
              position_SHORT := toFixed2 env shortPosition\<rparr>)"

definition open_order_row :: "'n builtins \<Rightarrow> 'n order \<Rightarrow> jstring" where
  "open_order_row env order =
     str ''\<newline>        <tr>\<newline>          <td>'' @ order_id order
     @ str ''</td>\<newline>          <td>'' @ order_type order
     @ str ''</td>\<newline>          <td>'' @ order_side order
     @ str ''</td>\<newline>          <td>''
     @ toFixed2 env (case order_quantity order of None \<Rightarrow> number_zero env | Some q \<Rightarrow> q)
     @ str ''</td>\<newline>          <td>'' @ order_status order
     @ str ''</td>\<newline>        </tr>\<newline>      ''"

definition dca_order_row :: "'n builtins \<Rightarrow> 'n dca_order \<Rightarrow> jstring" where
  "dca_order_row env order =
     str ''\<newline>        <tr>\<newline>          <td>'' @ dca_order_id order
     @ str ''</td>\<newline>          <td>'' @ dca_order_side order
     @ str ''</td>\<newline>          <td>''
     @ toFixed2 env (case dca_order_quantity order of None \<Rightarrow> number_zero env | Some q \<Rightarrow> q)
     @ str ''</td>\<newline>          <td>'' @ dca_order_status order
     @ str ''</td>\<newline>        </tr>\<newline>      ''"

definition render_tables :: "'n builtins \<Rightarrow> card \<Rightarrow> 'n instrument_state \<Rightarrow> card" where
  "render_tables env crd data =
     (let card1 = (case open_orders_tbody crd of
              None \<Rightarrow> crd
            | Some old \<Rightarrow>
                crd\<lparr>open_orders_tbody :=
                  Some (concat (map (open_order_row env) (open_orders data)))\<rparr>)
      in (case dca_table_tbody card1 of
            None \<Rightarrow> card1
          | Some old \<Rightarrow>
              card1\<lparr>dca_table_tbody :=
                Some (concat (map (dca_order_row env) (dca_orders data)))\<rparr>))"

text \<open>The \<^verbatim>\<open>li\<close> element of one log entry; code unit 34 is the double quote.\<close>

definition log_item :: "'n builtins \<Rightarrow> log_entry \<Rightarrow> jstring" where
  "log_item env entry =
     str ''\<newline>        <li>\<newline>          <time>''
     @ date_toLocaleString env (timestamp entry)
     @ str ''</time>\<newline>          <span class='' @ [34] @ str ''level level-''
     @ toLowerCase env (level entry) @ [34] @ str ''>'' @ level entry
     @ str ''</span>\<newline>          <span class='' @ [34] @ str ''message'' @ [34]
     @ str ''>'' @ message entry
     @ str ''</span>\<newline>        </li>\<newline>      ''"

text \<open>
  The array methods the script calls on \<^verbatim>\<open>data.logs\<close>, each as the pair of the
  receiver after the call and the array returned: \<^verbatim>\<open>slice()\<close> returns a new array
  and leaves its receiver alone, \<^verbatim>\<open>reverse()\<close> reverses its receiver in place and
  returns it.
\<close>

definition array_slice :: "'a list \<Rightarrow> 'a list \<times> 'a list" where
  "array_slice xs = (xs, xs)"

definition array_reverse :: "'a list \<Rightarrow> 'a list \<times> 'a list" where
  "array_reverse xs = (rev xs, rev xs)"

text \<open>The log list, and what \<^verbatim>\<open>data.logs\<close> holds afterwards.\<close>

definition render_logs :: "'n builtins \<Rightarrow> card \<Rightarrow> 'n instrument_state \<Rightarrow> card \<times> log_entry list" where
  "render_logs env crd data =
     (case log_list_ul crd of
        None \<Rightarrow> (crd, logs data)
      | Some old \<Rightarrow>
          (let (logs1, copy) = array_slice (logs data);
               (copy1, reversed) = array_reverse copy
           in (crd\<lparr>log_list_ul := Some (concat (map (log_item env) reversed))\<rparr>, logs1)))"

text \<open>
  The outcome of \<^verbatim>\<open>renderInstrument(card, data)\<close>: the card and the
  \<^verbatim>\<open>logs\<close> array of \<^verbatim>\<open>data\<close> when the call ends, and the exception that
  ended it, if any.
\<close>

record render_result =
  card_after :: card
  logs_after :: "log_entry list"
  thrown :: "js_error option"

definition renderInstrument :: "'n builtins \<Rightarrow> card \<Rightarrow> 'n instrument_state \<Rightarrow> render_result" where
  "renderInstrument env crd data =
     (let card1 = crd\<lparr>entry_amount_input :=
            input_value env Entry_amount (number_to_string env (entry_amount (config data)))\<rparr>;
          (rows, e) = render_tp_rows env (take_profits (config data)) 0 (tp_rows card1);
          card2 = card1\<lparr>tp_rows := rows\<rparr>
      in (case e of
            Some err \<Rightarrow> \<lparr>card_after = card2, logs_after = logs data, thrown = Some err\<rparr>
          | None \<Rightarrow>
              (let card3 = render_stops_and_dca env card2 data;
                   card4 = render_status card3 data;
                   card5 = render_positions env card4 data;
                   card6 = render_tables env card5 data;
                   (card7, logs1) = render_logs env card6 data
               in \<lparr>card_after = card7, logs_after = logs1, thrown = None\<rparr>)))"

section \<open>The handlers\<close>

text \<open>
  A handler is modelled run to its end, from the card it finds and the outcome of the
  one request it may send, to the card it leaves and what it did besides, in order.
  Other handlers that run while it awaits the response are outside the model.
\<close>

text \<open>
  \<^verbatim>\<open>renderInstrument(card, data)\<close> for the value an API call resolved to.  The
  value \<^verbatim>\<open>null\<close> and an error body have no \<^verbatim>\<open>config\<close>: reading
  \<^verbatim>\<open>data.config.entry_amount\<close> throws before anything is written.
\<close>

definition render_json ::
  "'n builtins \<Rightarrow> card \<Rightarrow> ('n, 'n instrument_state) json \<Rightarrow> card \<times> js_error option" where
  "render_json env crd j =
     (case j of
        J_payload data \<Rightarrow> (let r = renderInstrument env crd data in (card_after r, thrown r))
      | J_object d \<Rightarrow> (crd, Some TypeError)
      | J_null \<Rightarrow> (crd, Some TypeError))"

text \<open>The click handler of the \<^verbatim>\<open>.add-stop\<close> button.\<close>

definition add_stop_click :: "'n builtins \<Rightarrow> card \<Rightarrow> card \<times> 'n effect list" where
  "add_stop_click env crd =
     (if length (stop_loss_list crd) \<ge> 10 then (crd, [Alert max_stops_text])
      else (crd\<lparr>stop_loss_list := stop_loss_list crd @ [createStopLossRow env None None]\<rparr>,
            []))"

text \<open>
  The click handler of the \<^verbatim>\<open>.remove-stop\<close> button of the row that is the
  \<open>i\<close>-th child of the container: \<^verbatim>\<open>row.remove()\<close>.
\<close>

definition remove_stop_click :: "nat \<Rightarrow> card \<Rightarrow> card" where
  "remove_stop_click i crd =
     (if i < length (stop_loss_list crd) then
        (case stop_loss_list crd ! i of
           Stop_loss_row offset volume \<Rightarrow>
             crd\<lparr>stop_loss_list := take i (stop_loss_list crd) @ drop (Suc i) (stop_loss_list crd)\<rparr>
         | Other_element \<Rightarrow> crd)
      else crd)"

text \<open>The submit handler of the config form.\<close>

definition submit_handler ::
  "'n builtins \<Rightarrow> ('n, 'n instrument_state) fetch_outcome \<Rightarrow> card \<Rightarrow> card \<times> 'n effect list" where
  "submit_handler env outcome crd =
     (case collectConfig env crd of
        Inl error \<Rightarrow> (crd, [Prevent_default, Alert_message error])
      | Inr cfg \<Rightarrow>
          (let (result, sent) = updateConfig env outcome (data_symbol crd) cfg
           in (case result of
                 Inl error \<Rightarrow> (crd, Prevent_default # sent @ [Alert_message error])
               | Inr data \<Rightarrow>
                   (let (crd', e) = render_json env crd data
                    in (case e of
                          Some error \<Rightarrow> (crd', Prevent_default # sent @ [Alert_message error])
                        | None \<Rightarrow>
                            (crd', Prevent_default # sent @ [Alert settings_updated_text]))))))"

text \<open>
  The body shared by the start, stop, close and refresh handlers: render the value the
  call resolved to, alert the message of whatever was thrown.
\<close>

definition render_or_alert ::
  "'n builtins \<Rightarrow> card \<Rightarrow> (js_error + ('n, 'n instrument_state) json) \<times> 'n effect list
     \<Rightarrow> card \<times> 'n effect list" where
  "render_or_alert env crd call =
     (let (result, sent) = call
      in (case result of
            Inl error \<Rightarrow> (crd, sent @ [Alert_message error])
          | Inr data \<Rightarrow>
              (let (crd', e) = render_json env crd data
               in (case e of
                     Some error \<Rightarrow> (crd', sent @ [Alert_message error])
                   | None \<Rightarrow> (crd', sent)))))"

definition start_click ::
  "'n builtins \<Rightarrow> ('n, 'n instrument_state) fetch_outcome \<Rightarrow> card \<Rightarrow> card \<times> 'n effect list" where
  "start_click env outcome crd = render_or_alert env crd (start env outcome (data_symbol crd))"

definition stop_click ::
  "'n builtins \<Rightarrow> ('n, 'n instrument_state) fetch_outcome \<Rightarrow> card \<Rightarrow> card \<times> 'n effect list" where
  "stop_click env outcome crd = render_or_alert env crd (stop env outcome (data_symbol crd))"

text \<open>\<open>confirmed\<close> is the answer to the \<^verbatim>\<open>confirm\<close> dialog.\<close>

definition close_click ::
  "'n builtins \<Rightarrow> bool \<Rightarrow> ('n, 'n instrument_state) fetch_outcome \<Rightarrow> card
     \<Rightarrow> card \<times> 'n effect list" where
  "close_click env confirmed outcome crd =
     (if \<not> confirmed then (crd, [])
      else render_or_alert env crd (close env outcome (data_symbol crd)))"

definition refresh_click ::
  "'n builtins \<Rightarrow> ('n, 'n instrument_state) fetch_outcome \<Rightarrow> card \<Rightarrow> card \<times> 'n effect list" where
  "refresh_click env outcome crd =
     render_or_alert env crd (refreshInstrument env outcome (data_symbol crd))"

subsection \<open>The global controls\<close>

text \<open>
  The selector that \<^verbatim>\<open>updateAll\<close> builds for a symbol by interpolation:
  \<^verbatim>\<open>.instrument-card[data-symbol="..."]\<close>, the symbol between the double quotes
  (code unit 34) as it is.
\<close>

definition card_selector :: "jstring \<Rightarrow> jstring" where
  "card_selector s = str ''.instrument-card[data-symbol='' @ [34] @ s @ [34] @ str '']''"

text \<open>The first card of the page, in document order, whose symbol passes a test.\<close>

fun first_match :: "(jstring \<Rightarrow> bool) \<Rightarrow> card list \<Rightarrow> nat option" where
  "first_match matches [] = None"
| "first_match matches (crd # cards) =
     (if matches (data_symbol crd) then Some 0 else map_option Suc (first_match matches cards))"

text \<open>
  \<^verbatim>\<open>document.querySelector(selector)\<close> on a page whose instrument cards are
  \<open>cards\<close>: it throws when the engine refuses the selector, and otherwise returns the
  first card that matches, or \<^verbatim>\<open>null\<close>.  The selector is for cards; a match that
  is no card is outside the model.
\<close>

definition querySelector :: "'n builtins \<Rightarrow> jstring \<Rightarrow> card list \<Rightarrow> js_error + nat option" where
  "querySelector env selector cards =
     (case css_match env selector of
        None \<Rightarrow> Inl SyntaxError
      | Some matches \<Rightarrow> Inr (first_match matches cards))"

text \<open>
  The \<^verbatim>\<open>forEach\<close> of \<^verbatim>\<open>updateAll\<close> over the instruments: the cards, the
  indices of the cards that \<^verbatim>\<open>renderInstrument\<close> was called on, in order, and
  the exception that ended the loop, if any.
\<close>

fun updateAll_each ::
  "'n builtins \<Rightarrow> card list \<Rightarrow> 'n instrument_state list
     \<Rightarrow> card list \<times> nat list \<times> js_error option" where
  "updateAll_each env cards [] = (cards, [], None)"
| "updateAll_each env cards (instrument # rest) =
     (case querySelector env (card_selector (state_symbol instrument)) cards of
        Inl error \<Rightarrow> (cards, [], Some error)
      | Inr None \<Rightarrow> updateAll_each env cards rest
      | Inr (Some i) \<Rightarrow>
          (let r = renderInstrument env (cards ! i) instrument;
               cards' = cards[i := card_after r]
           in (case thrown r of
                 Some error \<Rightarrow> (cards', [i], Some error)
               | None \<Rightarrow>
                   (let (cards'', rendered, e) = updateAll_each env cards' rest
                    in (cards'', i # rendered, e)))))"

definition updateAll ::
  "'n builtins \<Rightarrow> card list \<Rightarrow> 'n manager_state \<Rightarrow> card list \<times> nat list \<times> js_error option" where
  "updateAll env cards managerState = updateAll_each env cards (instruments managerState)"

text \<open>
  The click handlers of the start-all and stop-all buttons.  A resolved value that is
  \<^verbatim>\<open>null\<close> or an error body has no \<^verbatim>\<open>instruments\<close> array to iterate.
\<close>

definition update_or_alert ::
  "'n builtins \<Rightarrow> card list \<Rightarrow> (js_error + ('n, 'n manager_state) json) \<times> 'n effect list
     \<Rightarrow> card list \<times> 'n effect list" where
  "update_or_alert env cards call =
     (let (result, sent) = call
      in (case result of
            Inl error \<Rightarrow> (cards, sent @ [Alert_message error])
          | Inr (J_payload state) \<Rightarrow>
              (let (cards', rendered, e) = updateAll env cards state
               in (case e of
                     Some error \<Rightarrow> (cards', sent @ [Alert_message error])
                   | None \<Rightarrow> (cards', sent)))
          | Inr (J_object d) \<Rightarrow> (cards, sent @ [Alert_message TypeError])
          | Inr J_null \<Rightarrow> (cards, sent @ [Alert_message TypeError])))"

definition start_all_click ::
  "'n builtins \<Rightarrow> ('n, 'n manager_state) fetch_outcome \<Rightarrow> card list
     \<Rightarrow> card list \<times> 'n effect list" where
  "start_all_click env outcome cards = update_or_alert env cards (startAll env outcome)"

definition stop_all_click ::
  "'n builtins \<Rightarrow> ('n, 'n manager_state) fetch_outcome \<Rightarrow> card list
     \<Rightarrow> card list \<times> 'n effect list" where
  "stop_all_click env outcome cards = update_or_alert env cards (stopAll env outcome)"

subsection \<open>Sequences of interactions with the stop-loss list\<close>

datatype 'n interaction = Add_stop | Remove_stop nat | Render "'n instrument_state"

fun interact :: "'n builtins \<Rightarrow> card \<Rightarrow> 'n interaction \<Rightarrow> card" where
  "interact env crd Add_stop = fst (add_stop_click env crd)"
| "interact env crd (Remove_stop i) = remove_stop_click i crd"
| "interact env crd (Render data) = card_after (renderInstrument env crd data)"

definition interactions :: "'n builtins \<Rightarrow> card \<Rightarrow> 'n interaction list \<Rightarrow> card" where
  "interactions env crd acts = foldl (interact env) crd acts"

text \<open>The stop-loss array of the request that a handler sent, if it sent one with a body.\<close>

fun submitted_stop_losses :: "'n effect list \<Rightarrow> 'n stop_loss list option" where
  "submitted_stop_losses [] = None"
| "submitted_stop_losses (Fetch req # effects) =
     (case req_body req of
        Some payload \<Rightarrow> Some (stop_losses payload)
      | None \<Rightarrow> submitted_stop_losses effects)"
| "submitted_stop_losses (other # effects) = submitted_stop_losses effects"

text \<open>Whether a handler sent a request.\<close>

fun is_fetch :: "'n effect \<Rightarrow> bool" where
  "is_fetch (Fetch req) = True"
| "is_fetch other = False"

section \<open>An instance of the built-ins\<close>

text \<open>
  The built-ins restricted to the natural numbers and \<^verbatim>\<open>NaN\<close> (\<open>None\<close>), in
  decimal notation, to run the model on concrete inputs.  Its selector engine knows the
  selectors of \<open>card_selector\<close> only.  For a symbol without a double quote, a backslash,
  a line break, a null character or a surrogate, the selector matches the cards with
  exactly that symbol.  It refuses every other selector; a real engine accepts some of
  them, such as a symbol with a backslash escape.
\<close>

fun decimal :: "nat \<Rightarrow> jstring" where
  "decimal n = (if n < 10 then [48 + n] else decimal (n div 10) @ [48 + n mod 10])"

declare decimal.simps [simp del]

definition is_digit :: "nat \<Rightarrow> bool" where
  "is_digit c \<longleftrightarrow> 48 \<le> c \<and> c \<le> 57"

definition parse_decimal :: "jstring \<Rightarrow> nat option" where
  "parse_decimal s =
     (let ds = takeWhile is_digit (dropWhile is_white_space s)
      in if ds = [] then None else Some (foldl (\<lambda>a d. 10 * a + (d - 48)) 0 ds))"

definition needs_no_escape :: "nat \<Rightarrow> bool" where
  "needs_no_escape c \<longleftrightarrow>
     c \<notin> {0, 10, 12, 13, 34, 92} \<and> \<not> (55296 \<le> c \<and> c \<le> 57343)"

definition symbol_selector :: "jstring \<Rightarrow> (jstring \<Rightarrow> bool) option" where
  "symbol_selector selector =
     (let s = take (length selector - 32) (drop 30 selector)
      in if selector = card_selector s \<and> list_all needs_no_escape s
         then Some (\<lambda>a. a = s) else None)"

definition nat_builtins :: "nat option builtins" where
  "nat_builtins =
     \<lparr>number_to_string = (\<lambda>x. case x of None \<Rightarrow> str ''NaN'' | Some n \<Rightarrow> decimal n),
      parseFloat = parse_decimal,
      toFixed2 = (\<lambda>x. case x of None \<Rightarrow> str ''NaN'' | Some n \<Rightarrow> decimal n @ str ''.00''),
      number_zero = Some 0,
      number_truthy = (\<lambda>x. case x of None \<Rightarrow> False | Some n \<Rightarrow> n \<noteq> 0),
      toLowerCase = map (\<lambda>c. if 65 \<le> c \<and> c \<le> 90 then c + 32 else c),
      date_toLocaleString = (\<lambda>t. t),
      input_value = (\<lambda>f s. if list_all is_digit s then s else []),
      css_match = symbol_selector\<rparr>"

section \<open>Notions used in the statements\<close>

text \<open>
  The take-profit rows once the loop of \<^verbatim>\<open>renderInstrument\<close> has ended: each row
  that has a take-profit at its index holds the offset and the volume of that
  take-profit, the rows past the last take-profit hold what they held before.
\<close>

definition written_rows :: "'n builtins \<Rightarrow> 'n take_profit list \<Rightarrow> tp_row list \<Rightarrow> tp_row list" where
  "written_rows env tps rows =
     map (\<lambda>(tp, row). write_tp_row env tp row) (zip tps rows) @ drop (length tps) rows"

text \<open>
  A number is well-formed for an input when writing it into the input and reading the
  input back with \<^verbatim>\<open>parseFloat\<close> gives the number again.  The two DCA inputs are
  trimmed and tested for blankness before they are parsed: a number is well-formed for
  them when, besides, what was written does not trim to the empty string.
\<close>

definition round_trips :: "'n builtins \<Rightarrow> field \<Rightarrow> 'n \<Rightarrow> bool" where
  "round_trips env f x \<longleftrightarrow>
     parseFloat env (input_value env f (number_to_string env x)) = x"

definition round_trips_trimmed :: "'n builtins \<Rightarrow> field \<Rightarrow> 'n \<Rightarrow> bool" where
  "round_trips_trimmed env f x \<longleftrightarrow>
     trim (input_value env f (number_to_string env x)) \<noteq> []
     \<and> parseFloat env (trim (input_value env f (number_to_string env x))) = x"

definition well_formed_numbers :: "'n builtins \<Rightarrow> 'n instrument_config \<Rightarrow> bool" where
  "well_formed_numbers env cfg \<longleftrightarrow>
     round_trips env Entry_amount (entry_amount cfg)
     \<and> list_all (\<lambda>tp. round_trips env Tp_offset (tp_offset_percent tp)
                    \<and> round_trips env Tp_volume (tp_volume_percent tp)) (take_profits cfg)
     \<and> list_all (\<lambda>sl. round_trips env Sl_offset (sl_offset_percent sl)
                    \<and> round_trips env Sl_volume (sl_volume_percent sl)) (stop_losses cfg)
     \<and> (case dca_offset_percent (tp1_dca cfg) of
           None \<Rightarrow> True | Some x \<Rightarrow> round_trips_trimmed env Dca_offset x)
     \<and> (case dca_quantity (tp1_dca cfg) of
           None \<Rightarrow> True | Some x \<Rightarrow> round_trips_trimmed env Dca_quantity x)"

text \<open>A config whose DCA is enabled carries both DCA numbers.\<close>

definition dca_complete :: "'n instrument_config \<Rightarrow> bool" where
  "dca_complete cfg \<longleftrightarrow>
     \<not> enabled (tp1_dca cfg)
     \<or> (dca_offset_percent (tp1_dca cfg) \<noteq> None \<and> dca_quantity (tp1_dca cfg) \<noteq> None)"

definition offset_volume_pairs :: "'n take_profit list \<Rightarrow> ('n \<times> 'n) list" where
  "offset_volume_pairs tps = map (\<lambda>tp. (tp_offset_percent tp, tp_volume_percent tp)) tps"

text \<open>An interaction that renders a state renders one of at most \<open>k\<close> stop-losses.\<close>

fun renders_at_most :: "nat \<Rightarrow> 'n interaction \<Rightarrow> bool" where
  "renders_at_most k (Render data) = (length (stop_losses (config data)) \<le> k)"
| "renders_at_most k other = True"

text \<open>
  The first card of the page, in document order, that has a given symbol; and the cards
  found so for the instruments of a response, in the order of the response.
\<close>

definition first_with_symbol :: "jstring \<Rightarrow> card list \<Rightarrow> nat option" where
  "first_with_symbol s cards = first_match (\<lambda>a. a = s) cards"

fun found_cards :: "card list \<Rightarrow> 'n instrument_state list \<Rightarrow> nat list" where
  "found_cards cards [] = []"
| "found_cards cards (inst # insts) =
     (case first_with_symbol (state_symbol inst) cards of
        None \<Rightarrow> found_cards cards insts
      | Some i \<Rightarrow> i # found_cards cards insts)"

text \<open>
  The selector built for a symbol is exact when the engine takes it to match the cards
  with that symbol and no other card.  That is what a selector engine does for a symbol
  that needs no escaping between double quotes.
\<close>

definition exact_selector :: "'n builtins \<Rightarrow> jstring \<Rightarrow> bool" where
  "exact_selector env s \<longleftrightarrow> css_match env (card_selector s) = Some (\<lambda>a. a = s)"

definition exact_selectors :: "'n builtins \<Rightarrow> 'n instrument_state list \<Rightarrow> bool" where
  "exact_selectors env insts \<longleftrightarrow> list_all (\<lambda>inst. exact_selector env (state_symbol inst)) insts"



section \<open>Concrete inputs\<close>

definition ex_no_content :: "(nat option, nat option instrument_state) response" where
  "ex_no_content = \<lparr>status = 204, statusText = str ''No Content'', body_json = None\<rparr>"

definition ex_empty_detail :: "(nat option, nat option instrument_state) response" where
  "ex_empty_detail =
     \<lparr>status = 400, statusText = str ''Bad Request'', body_json = Some (J_object (D_string []))\<rparr>"

definition ex_not_found :: "(nat option, nat option instrument_state) response" where
  "ex_not_found =
     \<lparr>status = 404, statusText = str ''Not Found'',
      body_json = Some (J_object (D_string (str ''Unknown instrument'')))\<rparr>"

definition ex_null_body :: "(nat option, nat option instrument_state) response" where
  "ex_null_body =
     \<lparr>status = 500, statusText = str ''Internal Server Error'', body_json = Some J_null\<rparr>"

definition ex_payload :: "nat option config_payload" where
  "ex_payload =
     \<lparr>entry_amount = Some 100, take_profits = [], stop_losses = [],
      tp1_dca = \<lparr>enabled = False, dca_offset_percent = None, dca_quantity = None\<rparr>,
      symbol = str ''BTCUSDT''\<rparr>"

definition ex_ok :: "(nat option, nat option instrument_state) response" where
  "ex_ok = \<lparr>status = 200, statusText = str ''OK'', body_json = None\<rparr>"

definition ex_card :: card where
  "ex_card =
     \<lparr>data_symbol = str ''BTCUSDT'', entry_amount_input = str ''100'',
      tp_rows = [\<lparr>row_label = str ''TP1'', tp_offset_input = str ''1'', tp_volume_input = str ''50''\<rparr>,
                 \<lparr>row_label = str ''TP2'', tp_offset_input = str ''2'', tp_volume_input = str ''50''\<rparr>],
      stop_loss_list = [],
      dca_enabled_checked = False, dca_offset_input = [], dca_quantity_input = [],
      status_indicator_running = str ''false'', status_indicator_text = stopped_text,
      status_text = stopped_text, position_LONG = str ''0.00'', position_SHORT = str ''0.00'',
      open_orders_tbody = Some [], dca_table_tbody = Some [], log_list_ul = Some []\<rparr>"

definition ex_card_dca_blank :: card where
  "ex_card_dca_blank = ex_card\<lparr>dca_enabled_checked := True, dca_offset_input := str ''  '',
     dca_quantity_input := str ''5''\<rparr>"

definition ex_card_eth :: card where
  "ex_card_eth = ex_card\<lparr>data_symbol := str ''ETHUSDT''\<rparr>"

definition ex_cards :: "card list" where
  "ex_cards = [ex_card, ex_card_eth]"

definition ex_state :: "nat option instrument_state" where
  "ex_state =
     \<lparr>state_symbol = str ''BTCUSDT'',
      config = \<lparr>entry_amount = Some 250,
        take_profits =
          [\<lparr>tp_label = str ''TP1'', tp_offset_percent = Some 1, tp_volume_percent = Some 50\<rparr>,
           \<lparr>tp_label = str ''TP2'', tp_offset_percent = Some 2, tp_volume_percent = Some 50\<rparr>],
        stop_losses = [\<lparr>sl_offset_percent = Some 3, sl_volume_percent = Some 100\<rparr>],
        tp1_dca = \<lparr>enabled = True, dca_offset_percent = Some (Some 1), dca_quantity = Some (Some 10)\<rparr>\<rparr>,
      is_running = True,
      positions = \<lparr>LONG = Some (Some 5), SHORT = None\<rparr>,
      open_orders = [\<lparr>order_id = str ''17'', order_type = str ''LIMIT'', order_side = str ''SELL'',
        order_quantity = Some (Some 2), order_status = str ''NEW''\<rparr>],
      dca_orders = [],
      logs = [\<lparr>timestamp = str ''2024-01-01T00:00:00'', level = str ''INFO'',
                message = str ''started''\<rparr>,
              \<lparr>timestamp = str ''2024-01-01T00:00:05'', level = str ''ERROR'',
                message = str ''rejected''\<rparr>]\<rparr>"

definition ex_state_one_tp :: "nat option instrument_state" where
  "ex_state_one_tp =
     ex_state\<lparr>config := (config ex_state)\<lparr>take_profits :=
       [\<lparr>tp_label = str ''TP1'', tp_offset_percent = Some 4, tp_volume_percent = Some 30\<rparr>]\<rparr>\<rparr>"

definition ex_state_three_tps :: "nat option instrument_state" where
  "ex_state_three_tps =
     ex_state\<lparr>config := (config ex_state)\<lparr>take_profits := take_profits (config ex_state) @
       [\<lparr>tp_label = str ''TP3'', tp_offset_percent = Some 3, tp_volume_percent = Some 20\<rparr>]\<rparr>\<rparr>"

definition ex_state_dca_missing :: "nat option instrument_state" where
  "ex_state_dca_missing =
     ex_state\<lparr>config := (config ex_state)\<lparr>tp1_dca :=
       \<lparr>enabled = True, dca_offset_percent = None, dca_quantity = Some (Some 10)\<rparr>\<rparr>\<rparr>"

definition ex_state_eleven_stops :: "nat option instrument_state" where
  "ex_state_eleven_stops =
     ex_state\<lparr>config := (config ex_state)\<lparr>stop_losses :=
       map (\<lambda>k. \<lparr>sl_offset_percent = Some k, sl_volume_percent = Some 5\<rparr>) [1..<12]\<rparr>\<rparr>"

definition ex_manager_state :: "nat option manager_state" where
  "ex_manager_state = \<lparr>instruments = [ex_state]\<rparr>"

definition ex_state_eth :: "nat option instrument_state" where
  "ex_state_eth = ex_state\<lparr>state_symbol := str ''ETHUSDT''\<rparr>"

definition ex_manager_state_short :: "nat option manager_state" where
  "ex_manager_state_short = \<lparr>instruments = [ex_state_one_tp, ex_state_eth]\<rparr>"

definition ex_cards_same_symbol :: "card list" where
  "ex_cards_same_symbol = [ex_card, ex_card]"

definition ex_card_quoted :: card where
  "ex_card_quoted = ex_card\<lparr>data_symbol := [65, 34, 66]\<rparr>"

definition ex_manager_state_quoted :: "nat option manager_state" where
  "ex_manager_state_quoted = \<lparr>instruments = [ex_state\<lparr>state_symbol := [65, 34, 66]\<rparr>]\<rparr>"


definition ex_interactions :: "nat option interaction list" where
  "ex_interactions = [Add_stop, Render ex_state, Add_stop, Remove_stop 0]"

section \<open>The API client: responses without content and failed responses\<close>

lemma API_request_204:
  "status response = 204 \<Longrightarrow>
     fst (API_request env (Fetch_resolved response) url options) = Inr J_null"
  by (simp add: API_request_def response_ok_def Let_def)

text \<open>
  Claim C4.  Whatever method of the API client is called, a response with status 204
  makes the call resolve to \<^verbatim>\<open>null\<close>: the promise is not rejected, whatever the
  status text and the body of the response are.
\<close>

theorem status_204_resolves_to_null:
  assumes "status response = 204"
  shows "fst (listInstruments env (Fetch_resolved response)) = Inr J_null
     \<and> fst (updateConfig env (Fetch_resolved response) smb payload) = Inr J_null
     \<and> fst (start env (Fetch_resolved response) smb) = Inr J_null
     \<and> fst (stop env (Fetch_resolved response) smb) = Inr J_null
     \<and> fst (close env (Fetch_resolved response) smb) = Inr J_null
     \<and> fst (startAll env (Fetch_resolved response)) = Inr J_null
     \<and> fst (stopAll env (Fetch_resolved response)) = Inr J_null
     \<and> fst (refreshInstrument env (Fetch_resolved response) smb) = Inr J_null"
  using assms
  by (simp add: listInstruments_def updateConfig_def start_def stop_def close_def
      startAll_def stopAll_def refreshInstrument_def API_request_204)

theorem status_204_resolves_to_null_witness:
  "status ex_no_content = 204
     \<and> fst (listInstruments nat_builtins (Fetch_resolved ex_no_content)) = Inr J_null
     \<and> fst (updateConfig nat_builtins (Fetch_resolved ex_no_content) (str ''BTCUSDT'') ex_payload)
         = Inr J_null
     \<and> fst (start nat_builtins (Fetch_resolved ex_no_content) (str ''BTCUSDT'')) = Inr J_null
     \<and> fst (stopAll nat_builtins (Fetch_resolved ex_no_content)) = Inr J_null"
proof -
  have h: "status ex_no_content = 204"
    by (simp add: ex_no_content_def)
  show ?thesis
    using h status_204_resolves_to_null [OF h, of nat_builtins "str ''BTCUSDT''" ex_payload]
    by simp
qed

text \<open>
  Claim C2, as the script has it.  A response outside 200..299 whose body is not the
  JSON value \<^verbatim>\<open>null\<close> rejects the call with an \<^verbatim>\<open>Error\<close>.  Its message is
  the \<^verbatim>\<open>detail\<close> property of the body converted to a string when that property is
  truthy (so exactly \<open>X\<close> for a non-empty string \<open>X\<close>); otherwise the status text when
  that is not empty; otherwise the fallback text.  A body that is no JSON text, or has no
  \<^verbatim>\<open>detail\<close>, counts as one whose \<^verbatim>\<open>detail\<close> is undefined.
\<close>

theorem rejects_with_detail_status_or_fallback:
  assumes "\<not> response_ok response" and "body_json response \<noteq> Some J_null"
  shows "(\<exists>d. detail_property (body_json response) = Inr d \<and>
            fst (API_request env (Fetch_resolved response) url options) =
              Inl (Error (if detail_truthy env d then detail_to_string env d
                          else if statusText response \<noteq> [] then statusText response
                          else request_error_text)))
     \<and> (\<forall>X. body_json response = Some (J_object (D_string X)) \<and> X \<noteq> [] \<longrightarrow>
            fst (API_request env (Fetch_resolved response) url options) = Inl (Error X))"
  using assms
  by (cases "body_json response" rule: detail_property.cases)
     (simp_all add: API_request_def Let_def)

theorem rejects_with_detail_status_or_fallback_witness:
  "\<not> response_ok ex_not_found \<and> body_json ex_not_found \<noteq> Some J_null
     \<and> fst (API_request nat_builtins (Fetch_resolved ex_not_found) (str ''/api/instruments'')
            no_options) = Inl (Error (str ''Unknown instrument''))"
proof -
  have h1: "\<not> response_ok ex_not_found"
    by (simp add: ex_not_found_def response_ok_def)
  have h2: "body_json ex_not_found \<noteq> Some J_null"
    by (simp add: ex_not_found_def)
  have "str ''Unknown instrument'' \<noteq> []"
    by (simp add: str_def)
  then show ?thesis
    using h1 h2 rejects_with_detail_status_or_fallback [OF h1 h2, of nat_builtins
        "str ''/api/instruments''" no_options]
    by (simp add: ex_not_found_def)
qed

text \<open>
  The claim as the specification states it fails for the body
  \<^verbatim>\<open>{"detail": ""}\<close>: the \<^verbatim>\<open>detail\<close> field is present and is the empty
  string, yet a response \<^verbatim>\<open>400 Bad Request\<close> with that body rejects with the
  message "Bad Request", not with the empty message.
\<close>

theorem empty_detail_counterexample:
  "body_json ex_empty_detail = Some (J_object (D_string []))
     \<and> \<not> response_ok ex_empty_detail
     \<and> fst (API_request nat_builtins (Fetch_resolved ex_empty_detail) (str ''/api/instruments'')
            no_options) = Inl (Error (str ''Bad Request''))
     \<and> fst (API_request nat_builtins (Fetch_resolved ex_empty_detail) (str ''/api/instruments'')
            no_options) \<noteq> Inl (Error [])"
  by (simp add: ex_empty_detail_def response_ok_def API_request_def Let_def str_def)

text \<open>
  A failed response whose body is the JSON value \<^verbatim>\<open>null\<close> rejects with the
  \<^verbatim>\<open>TypeError\<close> of reading \<^verbatim>\<open>detail\<close> from \<^verbatim>\<open>null\<close>.
\<close>

lemma null_body_rejects_with_TypeError:
  "fst (API_request nat_builtins (Fetch_resolved ex_null_body) (str ''/api/instruments'')
     no_options) = Inl TypeError"
  by (simp add: ex_null_body_def response_ok_def API_request_def Let_def)

section \<open>What a render writes\<close>

lemmas nat_builtins_simps =
  nat_builtins_def parse_decimal_def is_digit_def is_white_space_def decimal.simps trim_def
  round_trips_def round_trips_trimmed_def str_def

lemma render_tp_rows_eq:
  "render_tp_rows env tps i rows =
     (map (\<lambda>(tp, row). write_tp_row env tp row) (zip (drop i tps) rows)
        @ drop (length tps - i) rows,
      if length rows \<le> length tps - i then None else Some TypeError)"
proof (induction rows arbitrary: i)
  case Nil
  then show ?case by simp
next
  case (Cons row rows)
  show ?case
  proof (cases "i < length tps")
    case True
    then have d: "drop i tps = tps ! i # drop (Suc i) tps"
      by (simp add: Cons_nth_drop_Suc)
    from True have l: "length tps - i = Suc (length tps - Suc i)"
      by simp
    show ?thesis
      using True by (simp add: Cons.IH d l Let_def)
  next
    case False
    then show ?thesis by simp
  qed
qed

lemma renderStopLosses_map:
  "renderStopLosses env sls =
     map (\<lambda>sl. createStopLossRow env (Some (sl_offset_percent sl)) (Some (sl_volume_percent sl))) sls"
proof -
  have "foldl (\<lambda>container sl. container @ [f sl]) acc sls = acc @ map f sls"
    for f :: "'a stop_loss \<Rightarrow> sl_child" and acc
    by (induction sls arbitrary: acc) simp_all
  then show ?thesis
    by (simp add: renderStopLosses_def)
qed

lemma render_logs_keeps_logs: "snd (render_logs env crd data) = logs data"
  by (simp add: render_logs_def array_slice_def array_reverse_def split: option.splits)

lemma renderInstrument_throws:
  assumes "length (take_profits (config data)) < length (tp_rows crd)"
  shows "renderInstrument env crd data =
     \<lparr>card_after = crd\<lparr>entry_amount_input :=
          input_value env Entry_amount (number_to_string env (entry_amount (config data))),
        tp_rows := written_rows env (take_profits (config data)) (tp_rows crd)\<rparr>,
      logs_after = logs data, thrown = Some TypeError\<rparr>"
  using assms
  by (simp add: renderInstrument_def render_tp_rows_eq written_rows_def Let_def)

lemma renderInstrument_completes:
  assumes "length (tp_rows crd) \<le> length (take_profits (config data))"
  shows "renderInstrument env crd data =
     \<lparr>card_after = fst (render_logs env (render_tables env (render_positions env
          (render_status (render_stops_and_dca env
             (crd\<lparr>entry_amount_input :=
                 input_value env Entry_amount (number_to_string env (entry_amount (config data))),
               tp_rows := written_rows env (take_profits (config data)) (tp_rows crd)\<rparr>)
             data) data) data) data) data),
      logs_after = logs data, thrown = None\<rparr>"
  using assms
  by (simp add: renderInstrument_def render_tp_rows_eq written_rows_def Let_def
      case_prod_beta render_logs_keeps_logs)

lemma render_thrown:
  "thrown (renderInstrument env crd data) =
     (if length (tp_rows crd) \<le> length (take_profits (config data)) then None
      else Some TypeError)"
  by (simp add: renderInstrument_completes renderInstrument_throws)

lemma render_fields:
  assumes "length (tp_rows crd) \<le> length (take_profits (config data))"
  shows "data_symbol (card_after (renderInstrument env crd data)) = data_symbol crd"
    and "entry_amount_input (card_after (renderInstrument env crd data)) =
      input_value env Entry_amount (number_to_string env (entry_amount (config data)))"
    and "tp_rows (card_after (renderInstrument env crd data)) =
      written_rows env (take_profits (config data)) (tp_rows crd)"
    and "stop_loss_list (card_after (renderInstrument env crd data)) =
      renderStopLosses env (stop_losses (config data))"
    and "dca_enabled_checked (card_after (renderInstrument env crd data)) =
      enabled (tp1_dca (config data))"
    and "dca_offset_input (card_after (renderInstrument env crd data)) =
      (case dca_offset_percent (tp1_dca (config data)) of
         None \<Rightarrow> [] | Some x \<Rightarrow> input_value env Dca_offset (number_to_string env x))"
    and "dca_quantity_input (card_after (renderInstrument env crd data)) =
      (case dca_quantity (tp1_dca (config data)) of
         None \<Rightarrow> [] | Some x \<Rightarrow> input_value env Dca_quantity (number_to_string env x))"
  by (simp_all add: renderInstrument_completes [OF assms] render_logs_def render_tables_def
      render_positions_def render_status_def render_stops_and_dca_def Let_def
      array_slice_def array_reverse_def split: option.splits)

lemma render_keeps_symbol:
  "data_symbol (card_after (renderInstrument env crd data)) = data_symbol crd"
proof (cases "length (tp_rows crd) \<le> length (take_profits (config data))")
  case True
  then show ?thesis by (simp add: render_fields)
next
  case False
  then show ?thesis by (simp add: renderInstrument_throws)
qed

lemma written_rows_take:
  assumes "length rows \<le> length tps"
  shows "written_rows env (take (length rows) tps) rows = written_rows env tps rows"
proof -
  have "zip (take (length rows) tps) rows = zip tps rows"
  proof (induction rows arbitrary: tps)
    case Nil
    then show ?case by simp
  next
    case (Cons row rows)
    then show ?case by (cases tps) simp_all
  qed
  with assms show ?thesis
    by (simp add: written_rows_def)
qed

text \<open>
  Claim C10.  On a card with more take-profit rows than the state has take-profits,
  \<^verbatim>\<open>renderInstrument\<close> throws a \<^verbatim>\<open>TypeError\<close>.  By then it has overwritten
  the entry amount and the rows that do have a take-profit; every other element of the
  card, and the rows past the last take-profit, are as they were: the card is left
  partially rendered.  On a card with at most as many rows as the state has
  take-profits, the call does not throw and the take-profits past the last row are
  ignored: rendering the state is rendering it with those take-profits cut off.
\<close>

theorem render_partial_on_missing_take_profits:
  "(length (take_profits (config data)) < length (tp_rows crd) \<longrightarrow>
      renderInstrument env crd data =
        \<lparr>card_after = crd\<lparr>entry_amount_input :=
             input_value env Entry_amount (number_to_string env (entry_amount (config data))),
           tp_rows := written_rows env (take_profits (config data)) (tp_rows crd)\<rparr>,
         logs_after = logs data, thrown = Some TypeError\<rparr>)
   \<and> (length (tp_rows crd) \<le> length (take_profits (config data)) \<longrightarrow>
      thrown (renderInstrument env crd data) = None
      \<and> renderInstrument env crd data =
          renderInstrument env crd
            (data\<lparr>config := (config data)\<lparr>take_profits :=
               take (length (tp_rows crd)) (take_profits (config data))\<rparr>\<rparr>))"
proof (intro conjI impI)
  assume "length (take_profits (config data)) < length (tp_rows crd)"
  then show "renderInstrument env crd data =
        \<lparr>card_after = crd\<lparr>entry_amount_input :=
             input_value env Entry_amount (number_to_string env (entry_amount (config data))),
           tp_rows := written_rows env (take_profits (config data)) (tp_rows crd)\<rparr>,
         logs_after = logs data, thrown = Some TypeError\<rparr>"
    by (rule renderInstrument_throws)
next
  assume "length (tp_rows crd) \<le> length (take_profits (config data))"
  then show "thrown (renderInstrument env crd data) = None"
    by (simp add: renderInstrument_completes)
next
  let ?data' = "data\<lparr>config := (config data)\<lparr>take_profits :=
               take (length (tp_rows crd)) (take_profits (config data))\<rparr>\<rparr>"
  assume le: "length (tp_rows crd) \<le> length (take_profits (config data))"
  then have le': "length (tp_rows crd) \<le> length (take_profits (config ?data'))"
    by simp
  have same: "render_stops_and_dca env c ?data' = render_stops_and_dca env c data"
    "render_status c ?data' = render_status c data"
    "render_positions env c ?data' = render_positions env c data"
    "render_tables env c ?data' = render_tables env c data"
    "render_logs env c ?data' = render_logs env c data" for c
    by (simp_all add: render_stops_and_dca_def render_status_def render_positions_def
        render_tables_def render_logs_def Let_def split: option.splits)
  show "renderInstrument env crd data = renderInstrument env crd ?data'"
    unfolding renderInstrument_completes [OF le] renderInstrument_completes [OF le'] same
    by (simp add: written_rows_take [OF le])
qed

theorem render_partial_on_missing_take_profits_witness:
  "length (take_profits (config ex_state_one_tp)) < length (tp_rows ex_card)
   \<and> thrown (renderInstrument nat_builtins ex_card ex_state_one_tp) = Some TypeError
   \<and> entry_amount_input (card_after (renderInstrument nat_builtins ex_card ex_state_one_tp))
       = str ''250''
   \<and> tp_rows (card_after (renderInstrument nat_builtins ex_card ex_state_one_tp))
       = [\<lparr>row_label = str ''TP1'', tp_offset_input = str ''4'', tp_volume_input = str ''30''\<rparr>,
          \<lparr>row_label = str ''TP2'', tp_offset_input = str ''2'', tp_volume_input = str ''50''\<rparr>]
   \<and> stop_loss_list (card_after (renderInstrument nat_builtins ex_card ex_state_one_tp)) = []
   \<and> dca_enabled_checked (card_after (renderInstrument nat_builtins ex_card ex_state_one_tp))
       = False
   \<and> length (tp_rows ex_card) \<le> length (take_profits (config ex_state_three_tps))
   \<and> renderInstrument nat_builtins ex_card ex_state_three_tps
       = renderInstrument nat_builtins ex_card ex_state"
proof -
  have h1: "length (take_profits (config ex_state_one_tp)) < length (tp_rows ex_card)"
    by (simp add: ex_state_one_tp_def ex_card_def)
  have h2: "length (tp_rows ex_card) \<le> length (take_profits (config ex_state_three_tps))"
    by (simp add: ex_state_three_tps_def ex_state_def ex_card_def)
  have same: "ex_state_three_tps\<lparr>config := (config ex_state_three_tps)\<lparr>take_profits :=
      take (length (tp_rows ex_card)) (take_profits (config ex_state_three_tps))\<rparr>\<rparr> = ex_state"
    by (simp add: ex_state_three_tps_def ex_state_def ex_card_def)
  from h1 render_partial_on_missing_take_profits [of ex_state_one_tp ex_card nat_builtins]
  have r: "renderInstrument nat_builtins ex_card ex_state_one_tp =
        \<lparr>card_after = ex_card\<lparr>entry_amount_input := input_value nat_builtins Entry_amount
             (number_to_string nat_builtins (entry_amount (config ex_state_one_tp))),
           tp_rows := written_rows nat_builtins (take_profits (config ex_state_one_tp))
             (tp_rows ex_card)\<rparr>,
         logs_after = logs ex_state_one_tp, thrown = Some TypeError\<rparr>"
    by simp
  from h2 render_partial_on_missing_take_profits [of ex_state_three_tps ex_card nat_builtins]
  have e: "renderInstrument nat_builtins ex_card ex_state_three_tps
       = renderInstrument nat_builtins ex_card ex_state"
    by (simp add: same)
  have f: "entry_amount_input (card_after (renderInstrument nat_builtins ex_card ex_state_one_tp))
       = str ''250''"
    "tp_rows (card_after (renderInstrument nat_builtins ex_card ex_state_one_tp))
       = [\<lparr>row_label = str ''TP1'', tp_offset_input = str ''4'', tp_volume_input = str ''30''\<rparr>,
          \<lparr>row_label = str ''TP2'', tp_offset_input = str ''2'', tp_volume_input = str ''50''\<rparr>]"
    "stop_loss_list (card_after (renderInstrument nat_builtins ex_card ex_state_one_tp)) = []"
    "dca_enabled_checked (card_after (renderInstrument nat_builtins ex_card ex_state_one_tp))
       = False"
    unfolding r
    by (simp_all add: written_rows_def write_tp_row_def ex_state_one_tp_def ex_state_def
        ex_card_def nat_builtins_simps)
  have t: "thrown (renderInstrument nat_builtins ex_card ex_state_one_tp) = Some TypeError"
    unfolding r by simp
  show ?thesis
    by (intro conjI h1 h2 t f e)
qed

text \<open>
  Claim C8, as the script has it.  The log section of \<^verbatim>\<open>renderInstrument\<close>
  writes the log list, when the card has one, as one item for each log entry, the item
  of the last entry first and that of the first entry last; an item is the
  \<^verbatim>\<open>li\<close> element with the time, the level and the message of its entry.  The log
  list after \<^verbatim>\<open>renderInstrument\<close> is that when the card has a log list and the
  state has at least as many take-profits as the card has take-profit rows, so that the
  call reaches the section; otherwise it is what it was.  In every case the
  \<^verbatim>\<open>logs\<close> array of the state holds after the call what it held before:
  \<^verbatim>\<open>reverse\<close> is applied to the copy that \<^verbatim>\<open>slice\<close> made.
\<close>

theorem logs_rendered_newest_first:
  "render_logs env crd data =
     (case log_list_ul crd of
        None \<Rightarrow> crd
      | Some old \<Rightarrow> crd\<lparr>log_list_ul := Some (concat (rev (map (log_item env) (logs data))))\<rparr>,
      logs data)
   \<and> log_list_ul (card_after (renderInstrument env crd data)) =
       (if length (tp_rows crd) \<le> length (take_profits (config data)) \<and> log_list_ul crd \<noteq> None
        then Some (concat (rev (map (log_item env) (logs data))))
        else log_list_ul crd)
   \<and> logs_after (renderInstrument env crd data) = logs data
   \<and> length (rev (map (log_item env) (logs data))) = length (logs data)
   \<and> (\<forall>k < length (logs data).
        rev (map (log_item env) (logs data)) ! k
          = log_item env (logs data ! (length (logs data) - Suc k)))
   \<and> (\<forall>entry. log_item env entry =
        str ''\<newline>        <li>\<newline>          <time>''
        @ date_toLocaleString env (timestamp entry)
        @ str ''</time>\<newline>          <span class='' @ [34] @ str ''level level-''
        @ toLowerCase env (level entry) @ [34] @ str ''>'' @ level entry
        @ str ''</span>\<newline>          <span class='' @ [34] @ str ''message'' @ [34]
        @ str ''>'' @ message entry
        @ str ''</span>\<newline>        </li>\<newline>      '')"
proof -
  have block: "render_logs env c data =
     (case log_list_ul c of
        None \<Rightarrow> c
      | Some old \<Rightarrow> c\<lparr>log_list_ul := Some (concat (rev (map (log_item env) (logs data))))\<rparr>,
      logs data)" for c
    by (simp add: render_logs_def array_slice_def array_reverse_def rev_map
        split: option.splits)
  have frame: "log_list_ul (render_tables env (render_positions env (render_status
      (render_stops_and_dca env c data) data) data) data) = log_list_ul c" for c
    by (simp add: render_tables_def render_positions_def render_status_def
        render_stops_and_dca_def Let_def split: option.splits)
  have whole: "log_list_ul (card_after (renderInstrument env crd data)) =
       (if length (tp_rows crd) \<le> length (take_profits (config data)) \<and> log_list_ul crd \<noteq> None
        then Some (concat (rev (map (log_item env) (logs data))))
        else log_list_ul crd)
     \<and> logs_after (renderInstrument env crd data) = logs data"
  proof (cases "length (tp_rows crd) \<le> length (take_profits (config data))")
    case True
    show ?thesis
      unfolding renderInstrument_completes [OF True]
      using True by (auto simp add: block frame split: option.splits)
  next
    case False
    then show ?thesis
      by (simp add: renderInstrument_throws)
  qed
  have items: "length (rev (map (log_item env) (logs data))) = length (logs data)
      \<and> (\<forall>k < length (logs data).
        rev (map (log_item env) (logs data)) ! k
          = log_item env (logs data ! (length (logs data) - Suc k)))"
    by (simp add: rev_nth)
  have item: "\<forall>entry. log_item env entry =
        str ''\<newline>        <li>\<newline>          <time>''
        @ date_toLocaleString env (timestamp entry)
        @ str ''</time>\<newline>          <span class='' @ [34] @ str ''level level-''
        @ toLowerCase env (level entry) @ [34] @ str ''>'' @ level entry
        @ str ''</span>\<newline>          <span class='' @ [34] @ str ''message'' @ [34]
        @ str ''>'' @ message entry
        @ str ''</span>\<newline>        </li>\<newline>      ''"
    by (simp add: log_item_def)
  from block [of crd] whole items item show ?thesis
    by (intro conjI) simp_all
qed

theorem logs_rendered_newest_first_witness:
  "length (tp_rows ex_card) \<le> length (take_profits (config ex_state))
   \<and> log_list_ul ex_card \<noteq> None
   \<and> logs ex_state =
       [\<lparr>timestamp = str ''2024-01-01T00:00:00'', level = str ''INFO'',
          message = str ''started''\<rparr>,
        \<lparr>timestamp = str ''2024-01-01T00:00:05'', level = str ''ERROR'',
          message = str ''rejected''\<rparr>]
   \<and> log_list_ul (card_after (renderInstrument nat_builtins ex_card ex_state)) =
       Some (str ''\<newline>        <li>\<newline>          <time>2024-01-01T00:00:05</time>\<newline>          <span class=''
             @ [34] @ str ''level level-error'' @ [34]
             @ str ''>ERROR</span>\<newline>          <span class='' @ [34] @ str ''message'' @ [34]
             @ str ''>rejected</span>\<newline>        </li>\<newline>      ''
             @ str ''\<newline>        <li>\<newline>          <time>2024-01-01T00:00:00</time>\<newline>          <span class=''
             @ [34] @ str ''level level-info'' @ [34]
             @ str ''>INFO</span>\<newline>          <span class='' @ [34] @ str ''message'' @ [34]
             @ str ''>started</span>\<newline>        </li>\<newline>      '')
   \<and> logs_after (renderInstrument nat_builtins ex_card ex_state) = logs ex_state"
proof -
  have h1: "length (tp_rows ex_card) \<le> length (take_profits (config ex_state))"
    by (simp add: ex_card_def ex_state_def)
  have h2: "log_list_ul ex_card \<noteq> None"
    by (simp add: ex_card_def)
  have l: "logs ex_state = [\<lparr>timestamp = str ''2024-01-01T00:00:00'', level = str ''INFO'',
                message = str ''started''\<rparr>,
              \<lparr>timestamp = str ''2024-01-01T00:00:05'', level = str ''ERROR'',
                message = str ''rejected''\<rparr>]"
    by (simp add: ex_state_def)
  note w = logs_rendered_newest_first [where env = nat_builtins and crd = ex_card
      and data = ex_state]
  from h1 h2 w
  have written: "log_list_ul (card_after (renderInstrument nat_builtins ex_card ex_state)) =
        Some (concat (rev (map (log_item nat_builtins) (logs ex_state))))"
    by simp
  from w have item: "log_item nat_builtins entry =
        str ''\<newline>        <li>\<newline>          <time>''
        @ date_toLocaleString nat_builtins (timestamp entry)
        @ str ''</time>\<newline>          <span class='' @ [34] @ str ''level level-''
        @ toLowerCase nat_builtins (level entry) @ [34] @ str ''>'' @ level entry
        @ str ''</span>\<newline>          <span class='' @ [34] @ str ''message'' @ [34]
        @ str ''>'' @ message entry
        @ str ''</span>\<newline>        </li>\<newline>      ''" for entry
    by blast
  have builtins: "date_toLocaleString nat_builtins s = s"
    "toLowerCase nat_builtins s = map (\<lambda>c. if 65 \<le> c \<and> c \<le> 90 then c + 32 else c) s" for s
    by (simp_all add: nat_builtins_def)
  have items: "concat (rev (map (log_item nat_builtins) (logs ex_state))) =
       str ''\<newline>        <li>\<newline>          <time>2024-01-01T00:00:05</time>\<newline>          <span class=''
             @ [34] @ str ''level level-error'' @ [34]
             @ str ''>ERROR</span>\<newline>          <span class='' @ [34] @ str ''message'' @ [34]
             @ str ''>rejected</span>\<newline>        </li>\<newline>      ''
             @ str ''\<newline>        <li>\<newline>          <time>2024-01-01T00:00:00</time>\<newline>          <span class=''
             @ [34] @ str ''level level-info'' @ [34]
             @ str ''>INFO</span>\<newline>          <span class='' @ [34] @ str ''message'' @ [34]
             @ str ''>started</span>\<newline>        </li>\<newline>      ''"
    unfolding l item builtins by (simp add: str_def)
  have b: "log_list_ul (card_after (renderInstrument nat_builtins ex_card ex_state)) =
       Some (str ''\<newline>        <li>\<newline>          <time>2024-01-01T00:00:05</time>\<newline>          <span class=''
             @ [34] @ str ''level level-error'' @ [34]
             @ str ''>ERROR</span>\<newline>          <span class='' @ [34] @ str ''message'' @ [34]
             @ str ''>rejected</span>\<newline>        </li>\<newline>      ''
             @ str ''\<newline>        <li>\<newline>          <time>2024-01-01T00:00:00</time>\<newline>          <span class=''
             @ [34] @ str ''level level-info'' @ [34]
             @ str ''>INFO</span>\<newline>          <span class='' @ [34] @ str ''message'' @ [34]
             @ str ''>started</span>\<newline>        </li>\<newline>      '')"
    unfolding written items by (rule refl)
  from w have a: "logs_after (renderInstrument nat_builtins ex_card ex_state) = logs ex_state"
    by simp
  show ?thesis
    by (intro conjI h1 h2 l a b)
qed

text \<open>
  The claim as the specification states it, for every state, fails for a state with
  fewer take-profits than the card has rows: the call throws before it reaches the log
  section, and the log list of the card stays empty although the state has two log
  entries.
\<close>

theorem logs_not_written_counterexample:
  "length (take_profits (config ex_state_one_tp)) < length (tp_rows ex_card)
   \<and> length (logs ex_state_one_tp) = 2
   \<and> log_list_ul ex_card = Some []
   \<and> thrown (renderInstrument nat_builtins ex_card ex_state_one_tp) = Some TypeError
   \<and> log_list_ul (card_after (renderInstrument nat_builtins ex_card ex_state_one_tp)) = Some []
   \<and> concat (rev (map (log_item nat_builtins) (logs ex_state_one_tp))) \<noteq> []"
proof -
  have h: "length (take_profits (config ex_state_one_tp)) < length (tp_rows ex_card)"
    by (simp add: ex_state_one_tp_def ex_card_def)
  have l: "length (logs ex_state_one_tp) = 2"
    by (simp add: ex_state_one_tp_def ex_state_def)
  have c: "log_list_ul ex_card = Some []"
    by (simp add: ex_card_def)
  have t: "thrown (renderInstrument nat_builtins ex_card ex_state_one_tp) = Some TypeError"
    by (simp add: renderInstrument_throws [OF h])
  have u: "log_list_ul (card_after (renderInstrument nat_builtins ex_card ex_state_one_tp))
      = Some []"
    by (simp add: renderInstrument_throws [OF h] c)
  have n: "concat (rev (map (log_item nat_builtins) (logs ex_state_one_tp))) \<noteq> []"
    by (simp add: ex_state_one_tp_def ex_state_def log_item_def str_def)
  show ?thesis
    by (intro conjI h l c t u n)
qed

section \<open>Render, then collect\<close>

lemma collect_rendered_stop_losses:
  assumes "list_all (\<lambda>sl. round_trips env Sl_offset (sl_offset_percent sl)
                    \<and> round_trips env Sl_volume (sl_volume_percent sl)) sls"
  shows "collectStopLosses env (renderStopLosses env sls) = sls"
  using assms
  by (induction sls) (simp_all add: renderStopLosses_map createStopLossRow_def round_trips_def)

lemma collect_written_rows:
  assumes "length rows \<le> length tps"
    and "list_all (\<lambda>tp. round_trips env Tp_offset (tp_offset_percent tp)
                    \<and> round_trips env Tp_volume (tp_volume_percent tp)) tps"
  shows "offset_volume_pairs (map (\<lambda>row. \<lparr>tp_label = row_label row,
                tp_offset_percent = parseFloat env (tp_offset_input row),
                tp_volume_percent = parseFloat env (tp_volume_input row)\<rparr>)
             (written_rows env tps rows)) = take (length rows) (offset_volume_pairs tps)
     \<and> map row_label (written_rows env tps rows) = map row_label rows"
  using assms
proof (induction rows arbitrary: tps)
  case Nil
  then show ?case by (simp add: written_rows_def offset_volume_pairs_def)
next
  case (Cons row rows)
  then obtain tp tps' where tps: "tps = tp # tps'"
    by (cases tps) auto
  with Cons.prems have "length rows \<le> length tps'"
    and "list_all (\<lambda>tp. round_trips env Tp_offset (tp_offset_percent tp)
                    \<and> round_trips env Tp_volume (tp_volume_percent tp)) tps'"
    by simp_all
  from Cons.IH [OF this] Cons.prems show ?case
    by (simp add: tps written_rows_def offset_volume_pairs_def write_tp_row_def round_trips_def)
qed

lemma ex_state_well_formed: "well_formed_numbers nat_builtins (config ex_state)"
  by (simp add: well_formed_numbers_def ex_state_def nat_builtins_simps)

lemma ex_state_three_well_formed: "well_formed_numbers nat_builtins (config ex_state_three_tps)"
  by (simp add: well_formed_numbers_def ex_state_three_tps_def ex_state_def nat_builtins_simps)

text \<open>
  Claim C7, as the script has it.  Take a card with \<open>n\<close> take-profit rows and a state
  with at least \<open>n\<close> take-profits, whose config numbers are well-formed and whose DCA,
  when enabled, carries both its numbers.  Then \<^verbatim>\<open>renderInstrument\<close> followed by
  \<^verbatim>\<open>collectConfig\<close> returns a config with the entry amount, the stop-losses and
  the DCA settings of the state, and with the offset and volume of its first \<open>n\<close>
  take-profits (all of them when it has exactly \<open>n\<close>).  The labels of the take-profits
  and the symbol are those of the card.
\<close>

theorem render_then_collect:
  assumes rows: "length (tp_rows crd) \<le> length (take_profits (config S))"
    and wf: "well_formed_numbers env (config S)"
    and dca: "dca_complete (config S)"
  shows "\<exists>payload. collectConfig env (card_after (renderInstrument env crd S)) = Inr payload
     \<and> entry_amount payload = entry_amount (config S)
     \<and> offset_volume_pairs (take_profits payload) =
         take (length (tp_rows crd)) (offset_volume_pairs (take_profits (config S)))
     \<and> map tp_label (take_profits payload) = map row_label (tp_rows crd)
     \<and> stop_losses payload = stop_losses (config S)
     \<and> tp1_dca payload = tp1_dca (config S)
     \<and> symbol payload = data_symbol crd"
proof -
  let ?c = "card_after (renderInstrument env crd S)"
  let ?d = "tp1_dca (config S)"
  note f = render_fields [OF rows, of env]
  from wf have tps: "list_all (\<lambda>tp. round_trips env Tp_offset (tp_offset_percent tp)
      \<and> round_trips env Tp_volume (tp_volume_percent tp)) (take_profits (config S))"
    and sls: "list_all (\<lambda>sl. round_trips env Sl_offset (sl_offset_percent sl)
      \<and> round_trips env Sl_volume (sl_volume_percent sl)) (stop_losses (config S))"
    and ea: "parseFloat env (entry_amount_input ?c) = entry_amount (config S)"
    by (simp_all add: well_formed_numbers_def round_trips_def f)
  have off: "(trim (dca_offset_input ?c) = [] \<longleftrightarrow> dca_offset_percent ?d = None)
      \<and> (trim (dca_offset_input ?c) \<noteq> [] \<longrightarrow>
           Some (parseFloat env (trim (dca_offset_input ?c))) = dca_offset_percent ?d)"
    using wf
    by (cases "dca_offset_percent ?d")
       (simp_all add: well_formed_numbers_def round_trips_trimmed_def f trim_def)
  have qty: "(trim (dca_quantity_input ?c) = [] \<longleftrightarrow> dca_quantity ?d = None)
      \<and> (trim (dca_quantity_input ?c) \<noteq> [] \<longrightarrow>
           Some (parseFloat env (trim (dca_quantity_input ?c))) = dca_quantity ?d)"
    using wf
    by (cases "dca_quantity ?d")
       (simp_all add: well_formed_numbers_def round_trips_trimmed_def f trim_def)
  have no_throw: "\<not> (dca_enabled_checked ?c
      \<and> (trim (dca_offset_input ?c) = [] \<or> trim (dca_quantity_input ?c) = []))"
    using dca off qty by (auto simp add: dca_complete_def f)
  have dca_eq: "\<lparr>enabled = dca_enabled_checked ?c,
      dca_offset_percent = (if trim (dca_offset_input ?c) \<noteq> []
         then Some (parseFloat env (trim (dca_offset_input ?c))) else None),
      dca_quantity = (if trim (dca_quantity_input ?c) \<noteq> []
         then Some (parseFloat env (trim (dca_quantity_input ?c))) else None)\<rparr> = ?d"
    using off qty by (auto simp add: f)
  have tp: "offset_volume_pairs (map (\<lambda>row. \<lparr>tp_label = row_label row,
                tp_offset_percent = parseFloat env (tp_offset_input row),
                tp_volume_percent = parseFloat env (tp_volume_input row)\<rparr>) (tp_rows ?c))
      = take (length (tp_rows crd)) (offset_volume_pairs (take_profits (config S)))"
    and labels: "map tp_label (map (\<lambda>row. \<lparr>tp_label = row_label row,
                tp_offset_percent = parseFloat env (tp_offset_input row),
                tp_volume_percent = parseFloat env (tp_volume_input row)\<rparr>) (tp_rows ?c))
      = map row_label (tp_rows crd)"
    using collect_written_rows [OF rows tps] by (simp_all add: f(3) comp_def)
  have sl: "collectStopLosses env (stop_loss_list ?c) = stop_losses (config S)"
    using collect_rendered_stop_losses [OF sls] by (simp add: f(4))
  have smb: "data_symbol ?c = data_symbol crd"
    by (simp add: f(1))
  have "collectConfig env ?c =
      Inr \<lparr>entry_amount = parseFloat env (entry_amount_input ?c),
           take_profits = map (\<lambda>row. \<lparr>tp_label = row_label row,
                tp_offset_percent = parseFloat env (tp_offset_input row),
                tp_volume_percent = parseFloat env (tp_volume_input row)\<rparr>) (tp_rows ?c),
           stop_losses = collectStopLosses env (stop_loss_list ?c),
           tp1_dca = ?d, symbol = data_symbol ?c\<rparr>"
    using no_throw dca_eq by (simp add: collectConfig_def Let_def)
  then show ?thesis
    using ea tp labels sl smb by simp
qed

theorem render_then_collect_witness:
  "length (tp_rows ex_card) \<le> length (take_profits (config ex_state))
   \<and> well_formed_numbers nat_builtins (config ex_state)
   \<and> dca_complete (config ex_state)
   \<and> (\<exists>payload.
        collectConfig nat_builtins (card_after (renderInstrument nat_builtins ex_card ex_state))
          = Inr payload
        \<and> entry_amount payload = Some 250
        \<and> offset_volume_pairs (take_profits payload) = [(Some 1, Some 50), (Some 2, Some 50)]
        \<and> stop_losses payload = [\<lparr>sl_offset_percent = Some 3, sl_volume_percent = Some 100\<rparr>]
        \<and> tp1_dca payload
            = \<lparr>enabled = True, dca_offset_percent = Some (Some 1), dca_quantity = Some (Some 10)\<rparr>)"
proof -
  have h1: "length (tp_rows ex_card) \<le> length (take_profits (config ex_state))"
    by (simp add: ex_card_def ex_state_def)
  have h3: "dca_complete (config ex_state)"
    by (simp add: dca_complete_def ex_state_def)
  have c: "config ex_state = \<lparr>entry_amount = Some 250,
        take_profits =
          [\<lparr>tp_label = str ''TP1'', tp_offset_percent = Some 1, tp_volume_percent = Some 50\<rparr>,
           \<lparr>tp_label = str ''TP2'', tp_offset_percent = Some 2, tp_volume_percent = Some 50\<rparr>],
        stop_losses = [\<lparr>sl_offset_percent = Some 3, sl_volume_percent = Some 100\<rparr>],
        tp1_dca = \<lparr>enabled = True, dca_offset_percent = Some (Some 1), dca_quantity = Some (Some 10)\<rparr>\<rparr>"
    by (simp add: ex_state_def)
  have r: "length (tp_rows ex_card) = 2"
    by (simp add: ex_card_def)
  show ?thesis
    using h1 ex_state_well_formed h3
      render_then_collect [OF h1 ex_state_well_formed h3]
    by (auto simp add: c r offset_volume_pairs_def)
qed

text \<open>
  The claim as the specification states it, for every card, fails in two ways.  A card
  with two take-profit rows renders a state with three well-formed take-profits without
  an exception, and collecting gives back two of them.  And a state whose DCA is enabled
  with no offset renders without an exception, after which collecting throws the
  validation error.
\<close>

theorem render_then_collect_counterexample:
  "well_formed_numbers nat_builtins (config ex_state_three_tps)
   \<and> thrown (renderInstrument nat_builtins ex_card ex_state_three_tps) = None
   \<and> map_sum id (\<lambda>payload. offset_volume_pairs (take_profits payload))
        (collectConfig nat_builtins
           (card_after (renderInstrument nat_builtins ex_card ex_state_three_tps)))
       = Inr [(Some 1, Some 50), (Some 2, Some 50)]
   \<and> offset_volume_pairs (take_profits (config ex_state_three_tps))
       = [(Some 1, Some 50), (Some 2, Some 50), (Some 3, Some 20)]
   \<and> thrown (renderInstrument nat_builtins ex_card ex_state_dca_missing) = None
   \<and> collectConfig nat_builtins
        (card_after (renderInstrument nat_builtins ex_card ex_state_dca_missing))
       = Inl (Error dca_required_text)"
proof -
  have h: "length (tp_rows ex_card) \<le> length (take_profits (config ex_state_three_tps))"
    by (simp add: ex_card_def ex_state_three_tps_def ex_state_def)
  have h': "length (tp_rows ex_card) \<le> length (take_profits (config ex_state_dca_missing))"
    by (simp add: ex_card_def ex_state_dca_missing_def ex_state_def)
  have a: "map_sum id (\<lambda>payload. offset_volume_pairs (take_profits payload))
        (collectConfig nat_builtins
           (card_after (renderInstrument nat_builtins ex_card ex_state_three_tps)))
       = Inr [(Some 1, Some 50), (Some 2, Some 50)]"
    unfolding collectConfig_def Let_def render_fields [OF h]
    by (simp add: written_rows_def write_tp_row_def offset_volume_pairs_def ex_card_def
        ex_state_three_tps_def ex_state_def renderStopLosses_map createStopLossRow_def
        nat_builtins_simps)
  have b: "collectConfig nat_builtins
        (card_after (renderInstrument nat_builtins ex_card ex_state_dca_missing))
       = Inl (Error dca_required_text)"
    unfolding collectConfig_def Let_def render_fields [OF h']
    by (simp add: ex_state_dca_missing_def ex_state_def trim_def)
  have p: "offset_volume_pairs (take_profits (config ex_state_three_tps))
       = [(Some 1, Some 50), (Some 2, Some 50), (Some 3, Some 20)]"
    by (simp add: offset_volume_pairs_def ex_state_three_tps_def ex_state_def)
  have t: "thrown (renderInstrument nat_builtins ex_card ex_state_three_tps) = None"
    by (simp add: renderInstrument_completes [OF h])
  have t': "thrown (renderInstrument nat_builtins ex_card ex_state_dca_missing) = None"
    by (simp add: renderInstrument_completes [OF h'])
  show ?thesis
    by (intro conjI ex_state_three_well_formed t a p t' b)
qed

section \<open>The stop-loss list\<close>




lemma length_collectStopLosses: "length (collectStopLosses env container) \<le> length container"
  by (induction env container rule: collectStopLosses.induct) simp_all

lemma length_collect_rendered:
  "length (collectStopLosses env (renderStopLosses env sls)) = length sls"
  by (induction sls) (simp_all add: renderStopLosses_map createStopLossRow_def)

lemma rendered_stop_loss_list:
  "stop_loss_list (card_after (renderInstrument env crd data)) =
     (if length (tp_rows crd) \<le> length (take_profits (config data))
      then renderStopLosses env (stop_losses (config data)) else stop_loss_list crd)"
  by (simp add: render_fields renderInstrument_throws)

lemma interact_keeps_cap:
  assumes "length (stop_loss_list crd) \<le> 10" and "renders_at_most 10 a"
  shows "length (stop_loss_list (interact env crd a)) \<le> 10"
proof (cases a)
  case Add_stop
  with assms show ?thesis by (simp add: add_stop_click_def)
next
  case (Remove_stop i)
  with assms show ?thesis
    by (auto simp add: remove_stop_click_def split: sl_child.splits)
next
  case (Render data)
  with assms show ?thesis
    by (simp add: rendered_stop_loss_list renderStopLosses_map)
qed

lemma interactions_keep_cap:
  assumes "length (stop_loss_list crd) \<le> 10" and "list_all (renders_at_most 10) acts"
  shows "length (stop_loss_list (interactions env crd acts)) \<le> 10"
  using assms
proof (induction acts arbitrary: crd)
  case Nil
  then show ?case by (simp add: interactions_def)
next
  case (Cons a acts)
  from Cons.prems have "length (stop_loss_list (interact env crd a)) \<le> 10"
    by (simp add: interact_keeps_cap)
  with Cons.prems have "length (stop_loss_list (interactions env (interact env crd a) acts)) \<le> 10"
    by (intro Cons.IH) simp_all
  then show ?case by (simp add: interactions_def)
qed

lemma submit_sends_collected:
  "submitted_stop_losses (snd (submit_handler env outcome crd)) =
     (case collectConfig env crd of
        Inl error \<Rightarrow> None
      | Inr cfg \<Rightarrow> Some (stop_losses cfg))"
  by (simp add: submit_handler_def updateConfig_def API_request_def Let_def
      split: sum.splits prod.splits option.splits)

lemma collected_stop_losses:
  "collectConfig env crd = Inr cfg \<Longrightarrow>
     stop_losses cfg = collectStopLosses env (stop_loss_list crd)"
  by (auto simp add: collectConfig_def Let_def split: if_splits)

lemma ex_interactions_submitted:
  "submitted_stop_losses (snd (submit_handler nat_builtins (Fetch_resolved ex_no_content)
      (interactions nat_builtins ex_card ex_interactions)))
    = Some [\<lparr>sl_offset_percent = None, sl_volume_percent = None\<rparr>]"
  by (simp add: submit_sends_collected interactions_def ex_interactions_def collectConfig_def
      Let_def add_stop_click_def remove_stop_click_def createStopLossRow_def renderStopLosses_map
      render_fields ex_card_def ex_state_def nat_builtins_simps)

text \<open>
  Claim C1, as the script has it.  The only check of the length is the one of the add
  control; \<^verbatim>\<open>collectConfig\<close> submits one stop-loss for each row of the container,
  whatever their number.  So the config submitted has at most 10 stop-losses after every
  sequence of add, remove and render interactions that starts from a container of at
  most 10 children and renders only states of at most 10 stop-losses.
\<close>

theorem submitted_stop_losses_at_most_ten:
  assumes "length (stop_loss_list crd) \<le> 10"
    and "list_all (renders_at_most 10) acts"
    and "submitted_stop_losses (snd (submit_handler env outcome (interactions env crd acts)))
          = Some sls"
  shows "sls = collectStopLosses env (stop_loss_list (interactions env crd acts))
     \<and> length sls \<le> length (stop_loss_list (interactions env crd acts))
     \<and> length sls \<le> 10"
proof -
  let ?c = "interactions env crd acts"
  from assms(3) obtain cfg where "collectConfig env ?c = Inr cfg" and "sls = stop_losses cfg"
    by (auto simp add: submit_sends_collected split: sum.splits)
  then have sls: "sls = collectStopLosses env (stop_loss_list ?c)"
    by (simp add: collected_stop_losses)
  have "length (stop_loss_list ?c) \<le> 10"
    using assms(1,2) by (rule interactions_keep_cap)
  with sls length_collectStopLosses [of env "stop_loss_list ?c"] show ?thesis
    by simp
qed

theorem submitted_stop_losses_at_most_ten_witness:
  "length (stop_loss_list ex_card) \<le> 10
   \<and> list_all (renders_at_most 10) ex_interactions
   \<and> submitted_stop_losses (snd (submit_handler nat_builtins (Fetch_resolved ex_no_content)
        (interactions nat_builtins ex_card ex_interactions)))
      = Some [\<lparr>sl_offset_percent = None, sl_volume_percent = None\<rparr>]
   \<and> [\<lparr>sl_offset_percent = None, sl_volume_percent = None\<rparr>]
       = collectStopLosses nat_builtins
           (stop_loss_list (interactions nat_builtins ex_card ex_interactions))
   \<and> length (stop_loss_list (interactions nat_builtins ex_card ex_interactions)) \<le> 10"
proof -
  have h1: "length (stop_loss_list ex_card) \<le> 10"
    by (simp add: ex_card_def)
  have h2: "list_all (renders_at_most 10) ex_interactions"
    by (simp add: ex_interactions_def ex_state_def)
  note h3 = ex_interactions_submitted
  note c = submitted_stop_losses_at_most_ten [OF h1 h2 h3]
  from c have a: "[\<lparr>sl_offset_percent = None, sl_volume_percent = None\<rparr>]
       = collectStopLosses nat_builtins
           (stop_loss_list (interactions nat_builtins ex_card ex_interactions))"
    by (rule conjunct1)
  have b: "length (stop_loss_list (interactions nat_builtins ex_card ex_interactions)) \<le> 10"
    using h1 h2 by (rule interactions_keep_cap)
  show ?thesis
    by (intro conjI h1 h2 h3 a b)
qed

text \<open>
  The claim as the specification states it, for every sequence of interactions, fails
  when a state with 11 stop-losses is rendered: the container then holds 11 rows and the
  submit handler sends all 11.
\<close>

theorem render_bypasses_cap_counterexample:
  "length (stop_loss_list ex_card) \<le> 10
   \<and> map_option length (submitted_stop_losses (snd (submit_handler nat_builtins
        (Fetch_resolved ex_no_content)
        (interactions nat_builtins ex_card [Render ex_state_eleven_stops])))) = Some 11"
proof -
  let ?c = "card_after (renderInstrument nat_builtins ex_card ex_state_eleven_stops)"
  have h: "length (tp_rows ex_card) \<le> length (take_profits (config ex_state_eleven_stops))"
    by (simp add: ex_card_def ex_state_eleven_stops_def ex_state_def)
  have "\<not> (dca_enabled_checked ?c
      \<and> (trim (dca_offset_input ?c) = [] \<or> trim (dca_quantity_input ?c) = []))"
    unfolding render_fields [OF h]
    by (simp add: ex_state_eleven_stops_def ex_state_def nat_builtins_simps)
  then obtain cfg where cfg: "collectConfig nat_builtins ?c = Inr cfg"
    by (simp add: collectConfig_def Let_def)
  have "length (stop_losses cfg) = length (stop_losses (config ex_state_eleven_stops))"
    by (simp add: collected_stop_losses [OF cfg] render_fields [OF h] length_collect_rendered)
  also have "\<dots> = 11"
    by (simp add: ex_state_eleven_stops_def)
  finally have "length (stop_losses cfg) = 11" .
  then have sent: "map_option length (submitted_stop_losses (snd (submit_handler nat_builtins
        (Fetch_resolved ex_no_content)
        (interactions nat_builtins ex_card [Render ex_state_eleven_stops])))) = Some 11"
    by (simp add: submit_sends_collected interactions_def cfg)
  have small: "length (stop_loss_list ex_card) \<le> 10"
    by (simp add: ex_card_def)
  show ?thesis
    by (intro conjI small sent)
qed

section \<open>The submit handler\<close>

lemma collectConfig_blank_dca:
  assumes "dca_enabled_checked crd"
    and "trim (dca_offset_input crd) = [] \<or> trim (dca_quantity_input crd) = []"
  shows "collectConfig env crd = Inl (Error dca_required_text)"
  using assms by (auto simp add: collectConfig_def Let_def)

text \<open>
  Claim C3.  With the DCA checkbox checked and the DCA offset or the DCA quantity blank
  after trimming, \<^verbatim>\<open>collectConfig\<close> throws the validation error, and the submit
  handler only prevents the default action and alerts the message of that error: it
  sends no request, whatever the server would have answered.
\<close>

theorem blank_dca_throws_before_request:
  assumes "dca_enabled_checked crd"
    and "trim (dca_offset_input crd) = [] \<or> trim (dca_quantity_input crd) = []"
  shows "collectConfig env crd = Inl (Error dca_required_text)
     \<and> submit_handler env outcome crd =
         (crd, [Prevent_default, Alert_message (Error dca_required_text)])
     \<and> \<not> list_ex is_fetch (snd (submit_handler env outcome crd))"
  using collectConfig_blank_dca [OF assms, of env]
  by (simp add: submit_handler_def)

theorem blank_dca_throws_before_request_witness:
  "dca_enabled_checked ex_card_dca_blank
     \<and> trim (dca_offset_input ex_card_dca_blank) = []
     \<and> collectConfig nat_builtins ex_card_dca_blank = Inl (Error dca_required_text)
     \<and> submit_handler nat_builtins (Fetch_resolved ex_ok) ex_card_dca_blank =
         (ex_card_dca_blank, [Prevent_default, Alert_message (Error dca_required_text)])"
proof -
  have h1: "dca_enabled_checked ex_card_dca_blank"
    by (simp add: ex_card_dca_blank_def)
  have h2: "trim (dca_offset_input ex_card_dca_blank) = []"
    by (simp add: ex_card_dca_blank_def trim_def str_def is_white_space_def)
  from h2 have h3: "trim (dca_offset_input ex_card_dca_blank) = []
      \<or> trim (dca_quantity_input ex_card_dca_blank) = []"
    by simp
  show ?thesis
    using h1 h2 blank_dca_throws_before_request [OF h1 h3, of nat_builtins "Fetch_resolved ex_ok"]
    by simp
qed

text \<open>
  Claim C5.  When \<^verbatim>\<open>collectConfig\<close> throws, or the call of
  \<^verbatim>\<open>updateConfig\<close> is rejected, the submit handler leaves the card as it found it,
  ends with the alert of the message of that error, and does not announce updated
  settings.
\<close>

theorem submit_error_leaves_card:
  assumes "collectConfig env crd = Inl error
     \<or> (\<exists>cfg. collectConfig env crd = Inr cfg
           \<and> fst (updateConfig env outcome (data_symbol crd) cfg) = Inl error)"
  shows "fst (submit_handler env outcome crd) = crd
     \<and> last (snd (submit_handler env outcome crd)) = Alert_message error
     \<and> Alert settings_updated_text \<notin> set (snd (submit_handler env outcome crd))"
  using assms
  by (auto simp add: submit_handler_def updateConfig_def API_request_def Let_def
      split: sum.splits prod.splits)

theorem submit_error_leaves_card_witness:
  "collectConfig nat_builtins ex_card_dca_blank = Inl (Error dca_required_text)
   \<and> fst (submit_handler nat_builtins (Fetch_resolved ex_ok) ex_card_dca_blank) = ex_card_dca_blank
   \<and> last (snd (submit_handler nat_builtins (Fetch_resolved ex_ok) ex_card_dca_blank))
       = Alert_message (Error dca_required_text)
   \<and> (\<exists>cfg. collectConfig nat_builtins ex_card = Inr cfg
         \<and> fst (updateConfig nat_builtins (Fetch_resolved ex_not_found) (data_symbol ex_card) cfg)
             = Inl (Error (str ''Unknown instrument'')))
   \<and> fst (submit_handler nat_builtins (Fetch_resolved ex_not_found) ex_card) = ex_card
   \<and> last (snd (submit_handler nat_builtins (Fetch_resolved ex_not_found) ex_card))
       = Alert_message (Error (str ''Unknown instrument''))"
proof -
  have h1: "collectConfig nat_builtins ex_card_dca_blank = Inl (Error dca_required_text)"
    by (simp add: collectConfig_def Let_def ex_card_dca_blank_def ex_card_def trim_def str_def
        is_white_space_def)
  have "str ''Unknown instrument'' \<noteq> []"
    by (simp add: str_def)
  then have h2: "\<exists>cfg. collectConfig nat_builtins ex_card = Inr cfg
         \<and> fst (updateConfig nat_builtins (Fetch_resolved ex_not_found) (data_symbol ex_card) cfg)
             = Inl (Error (str ''Unknown instrument''))"
    by (simp add: collectConfig_def Let_def ex_card_def updateConfig_def API_request_def
        ex_not_found_def response_ok_def)
  from h1 submit_error_leaves_card [of nat_builtins ex_card_dca_blank "Error dca_required_text"
      "Fetch_resolved ex_ok"]
  have a: "fst (submit_handler nat_builtins (Fetch_resolved ex_ok) ex_card_dca_blank)
       = ex_card_dca_blank"
    and b: "last (snd (submit_handler nat_builtins (Fetch_resolved ex_ok) ex_card_dca_blank))
       = Alert_message (Error dca_required_text)"
    by simp_all
  from h2 submit_error_leaves_card [of nat_builtins ex_card "Error (str ''Unknown instrument'')"
      "Fetch_resolved ex_not_found"]
  have c: "fst (submit_handler nat_builtins (Fetch_resolved ex_not_found) ex_card) = ex_card"
    and d: "last (snd (submit_handler nat_builtins (Fetch_resolved ex_not_found) ex_card))
       = Alert_message (Error (str ''Unknown instrument''))"
    by simp_all
  show ?thesis
    by (intro conjI h1 h2 a b c d)
qed

section \<open>The global controls\<close>

declare updateAll_each.simps(2) [simp del]

lemma first_with_symbol_Some:
  "first_with_symbol s cards = Some i \<longleftrightarrow>
     i < length cards \<and> data_symbol (cards ! i) = s \<and> (\<forall>j < i. data_symbol (cards ! j) \<noteq> s)"
  unfolding first_with_symbol_def
proof (induction cards arbitrary: i)
  case Nil
  then show ?case by simp
next
  case (Cons crd cards)
  show ?case
  proof (cases "data_symbol crd = s")
    case True
    then show ?thesis by (cases i) auto
  next
    case False
    show ?thesis
    proof (cases i)
      case 0
      with False show ?thesis by auto
    next
      case (Suc k)
      have "(\<forall>j < Suc k. data_symbol ((crd # cards) ! j) \<noteq> s)
          \<longleftrightarrow> (\<forall>j < k. data_symbol (cards ! j) \<noteq> s)"
        using False by (auto simp add: less_Suc_eq_0_disj)
      with False Suc Cons.IH [of k] show ?thesis
        by auto
    qed
  qed
qed

lemma first_with_symbol_symbols:
  "map data_symbol cards' = map data_symbol cards \<Longrightarrow>
     first_with_symbol s cards' = first_with_symbol s cards"
  unfolding first_with_symbol_def
proof (induction cards arbitrary: cards')
  case Nil
  then show ?case by simp
next
  case (Cons crd cards)
  from Cons.prems obtain c' cs' where c: "cards' = c' # cs'"
    by (cases cards') simp_all
  with Cons.prems have s: "data_symbol c' = data_symbol crd"
    and "map data_symbol cs' = map data_symbol cards"
    by simp_all
  then have "first_match (\<lambda>a. a = s) cs' = first_match (\<lambda>a. a = s) cards"
    by (intro Cons.IH)
  with s show ?case
    by (simp add: c)
qed

lemma first_with_symbol_distinct:
  assumes "distinct (map data_symbol cards)" and "i < length cards"
  shows "first_with_symbol (data_symbol (cards ! i)) cards = Some i"
proof -
  have "data_symbol (cards ! j) \<noteq> data_symbol (cards ! i)" if "j < i" for j
    using that assms by (auto simp add: distinct_conv_nth)
  with assms(2) show ?thesis
    by (simp add: first_with_symbol_Some)
qed

lemma querySelector_exact:
  "exact_selector env s \<Longrightarrow>
     querySelector env (card_selector s) cards = Inr (first_with_symbol s cards)"
  by (simp add: querySelector_def exact_selector_def first_with_symbol_def)

lemma updateAll_each_Cons:
  assumes "exact_selector env (state_symbol inst)"
  shows "updateAll_each env cards (inst # rest) =
     (case first_with_symbol (state_symbol inst) cards of
        None \<Rightarrow> updateAll_each env cards rest
      | Some i \<Rightarrow>
          (let r = renderInstrument env (cards ! i) inst;
               cards' = cards[i := card_after r]
           in (case thrown r of
                 Some error \<Rightarrow> (cards', [i], Some error)
               | None \<Rightarrow>
                   (let (cards'', rendered, e) = updateAll_each env cards' rest
                    in (cards'', i # rendered, e)))))"
  by (simp add: updateAll_each.simps(2) querySelector_exact [OF assms])

lemma refused_selector_ends_loop:
  "css_match env (card_selector (state_symbol inst)) = None \<Longrightarrow>
     updateAll env cards \<lparr>instruments = inst # rest\<rparr> = (cards, [], Some SyntaxError)"
  by (simp add: updateAll_def updateAll_each.simps(2) querySelector_def)

lemma symbols_update:
  "i < length cards \<Longrightarrow> data_symbol c = data_symbol (cards ! i) \<Longrightarrow>
     map data_symbol (cards[i := c]) = map data_symbol cards"
  by (induction cards arbitrary: i) (auto split: nat.splits)

lemma rendered_card_symbols:
  assumes "first_with_symbol s cards = Some i"
  shows "map data_symbol (cards[i := card_after (renderInstrument env (cards ! i) inst)])
     = map data_symbol cards"
proof -
  from assms have "i < length cards"
    by (simp add: first_with_symbol_Some)
  then show ?thesis
    by (simp add: symbols_update render_keeps_symbol)
qed

lemma updateAll_each_append:
  "updateAll_each env cards (xs @ ys) =
     (let (cards1, rendered1, e1) = updateAll_each env cards xs
      in (case e1 of
            Some error \<Rightarrow> (cards1, rendered1, Some error)
          | None \<Rightarrow>
              (let (cards2, rendered2, e2) = updateAll_each env cards1 ys
               in (cards2, rendered1 @ rendered2, e2))))"
proof (induction xs arbitrary: cards)
  case Nil
  then show ?case by (simp add: case_prod_beta)
next
  case (Cons inst xs)
  show ?case
    by (simp add: updateAll_each.simps(2) Cons.IH Let_def case_prod_beta
        split: sum.splits option.splits)
qed

lemma found_cards_symbols:
  assumes "map data_symbol cards' = map data_symbol cards"
  shows "found_cards cards' insts = found_cards cards insts"
  by (induction insts) (simp_all add: first_with_symbol_symbols [OF assms] split: option.splits)

lemma set_found_cards:
  "set (found_cards cards insts) =
     {i. \<exists>inst \<in> set insts. first_with_symbol (state_symbol inst) cards = Some i}"
  by (induction insts) (auto split: option.splits)

lemma found_cards_map_filter:
  "found_cards cards insts =
     List.map_filter (\<lambda>inst. first_with_symbol (state_symbol inst) cards) insts"
  by (induction insts) (simp_all add: map_filter_simps split: option.splits)

lemma updateAll_each_symbols:
  assumes "exact_selectors env insts"
  shows "map data_symbol (fst (updateAll_each env cards insts)) = map data_symbol cards"
  using assms
proof (induction insts arbitrary: cards)
  case Nil
  then show ?case by simp
next
  case (Cons inst insts)
  then have x: "exact_selector env (state_symbol inst)" and xs: "exact_selectors env insts"
    by (simp_all add: exact_selectors_def)
  show ?case
  proof (cases "first_with_symbol (state_symbol inst) cards")
    case None
    then show ?thesis by (simp add: updateAll_each_Cons [OF x] Cons.IH [OF xs])
  next
    case (Some i)
    let ?r = "renderInstrument env (cards ! i) inst"
    note s = rendered_card_symbols [OF Some, of env inst]
    show ?thesis
      using Cons.IH [OF xs, of "cards[i := card_after ?r]"] s
      by (simp add: updateAll_each_Cons [OF x] Some Let_def case_prod_beta split: option.splits)
  qed
qed

lemma updateAll_each_frame:
  assumes "exact_selectors env insts"
    and "i < length cards" and "data_symbol (cards ! i) \<notin> state_symbol ` set insts"
  shows "fst (updateAll_each env cards insts) ! i = cards ! i"
  using assms
proof (induction insts arbitrary: cards)
  case Nil
  then show ?case by simp
next
  case (Cons inst insts)
  then have x: "exact_selector env (state_symbol inst)" and xs: "exact_selectors env insts"
    by (simp_all add: exact_selectors_def)
  show ?case
  proof (cases "first_with_symbol (state_symbol inst) cards")
    case None
    with Cons.prems Cons.IH [OF xs, of cards] show ?thesis
      by (simp add: updateAll_each_Cons [OF x])
  next
    case (Some k)
    let ?r = "renderInstrument env (cards ! k) inst"
    let ?cards = "cards[k := card_after ?r]"
    from Some have k: "k < length cards" "data_symbol (cards ! k) = state_symbol inst"
      by (simp_all add: first_with_symbol_Some)
    with Cons.prems have ne: "i \<noteq> k"
      by auto
    then have same: "?cards ! i = cards ! i"
      by simp
    with Cons.prems have "fst (updateAll_each env ?cards insts) ! i = ?cards ! i"
      by (intro Cons.IH [OF xs]) simp_all
    with same show ?thesis
      by (simp add: updateAll_each_Cons [OF x] Some Let_def case_prod_beta split: option.splits)
  qed
qed

lemma updateAll_each_rendered:
  assumes "exact_selectors env insts"
  shows "set (fst (snd (updateAll_each env cards insts))) \<subseteq> set (found_cards cards insts)
   \<and> (snd (snd (updateAll_each env cards insts)) = None \<longrightarrow>
        fst (snd (updateAll_each env cards insts)) = found_cards cards insts)"
  using assms
proof (induction insts arbitrary: cards)
  case Nil
  then show ?case by simp
next
  case (Cons inst insts)
  then have x: "exact_selector env (state_symbol inst)" and xs: "exact_selectors env insts"
    by (simp_all add: exact_selectors_def)
  show ?case
  proof (cases "first_with_symbol (state_symbol inst) cards")
    case None
    with Cons.IH [OF xs, of cards] show ?thesis
      by (simp add: updateAll_each_Cons [OF x])
  next
    case (Some k)
    let ?r = "renderInstrument env (cards ! k) inst"
    let ?cards = "cards[k := card_after ?r]"
    have f: "found_cards ?cards insts = found_cards cards insts"
      by (rule found_cards_symbols) (rule rendered_card_symbols [OF Some])
    show ?thesis
      using Cons.IH [OF xs, of ?cards]
      by (auto simp add: updateAll_each_Cons [OF x] Some f Let_def
          case_prod_beta split: option.splits)
  qed
qed

lemma updateAll_each_content:
  assumes "exact_selectors env insts"
    and "distinct (map state_symbol insts)"
    and "snd (snd (updateAll_each env cards insts)) = None"
    and "inst \<in> set insts"
    and "first_with_symbol (state_symbol inst) cards = Some i"
  shows "fst (updateAll_each env cards insts) ! i =
     card_after (renderInstrument env (cards ! i) inst)"
  using assms
proof (induction insts arbitrary: cards)
  case Nil
  then show ?case by simp
next
  case (Cons inst0 insts)
  then have x: "exact_selector env (state_symbol inst0)" and xs: "exact_selectors env insts"
    by (simp_all add: exact_selectors_def)
  note eq = updateAll_each_Cons [OF x]
  show ?case
  proof (cases "first_with_symbol (state_symbol inst0) cards")
    case None
    with Cons.prems have "inst \<in> set insts"
      by auto
    with Cons.prems None have "fst (updateAll_each env cards insts) ! i =
        card_after (renderInstrument env (cards ! i) inst)"
      by (intro Cons.IH [OF xs]) (simp_all add: eq)
    with None show ?thesis
      by (simp add: eq)
  next
    case (Some k)
    let ?r = "renderInstrument env (cards ! k) inst0"
    let ?cards = "cards[k := card_after ?r]"
    from Some have k: "k < length cards" "data_symbol (cards ! k) = state_symbol inst0"
      by (simp_all add: first_with_symbol_Some)
    from Cons.prems(5) have i: "i < length cards" "data_symbol (cards ! i) = state_symbol inst"
      by (simp_all add: first_with_symbol_Some)
    note symbols = rendered_card_symbols [OF Some, of env inst0]
    from Cons.prems(3) have thrown: "thrown ?r = None"
      by (simp add: eq Some Let_def case_prod_beta split: option.splits)
    with Cons.prems(3) have rest: "snd (snd (updateAll_each env ?cards insts)) = None"
      by (simp add: eq Some Let_def case_prod_beta)
    from thrown have res: "fst (updateAll_each env cards (inst0 # insts)) =
        fst (updateAll_each env ?cards insts)"
      by (simp add: eq Some Let_def case_prod_beta)
    show ?thesis
    proof (cases "inst = inst0")
      case True
      with Some Cons.prems(5) have "i = k"
        by simp
      from Cons.prems(2) have "state_symbol inst0 \<notin> state_symbol ` set insts"
        by simp
      with k have "fst (updateAll_each env ?cards insts) ! k = ?cards ! k"
        by (intro updateAll_each_frame [OF xs]) (simp_all add: render_keeps_symbol)
      with k True \<open>i = k\<close> show ?thesis
        unfolding res by simp
    next
      case False
      with Cons.prems have mem: "inst \<in> set insts"
        by simp
      with Cons.prems(2) have "state_symbol inst \<noteq> state_symbol inst0"
        by (auto simp add: image_iff)
      with k i have ne: "i \<noteq> k"
        by auto
      from Cons.prems(5) have "first_with_symbol (state_symbol inst) ?cards = Some i"
        by (simp add: first_with_symbol_symbols [OF symbols])
      with Cons.prems(2) rest mem
      have "fst (updateAll_each env ?cards insts) ! i =
          card_after (renderInstrument env (?cards ! i) inst)"
        by (intro Cons.IH [OF xs]) simp_all
      with ne show ?thesis
        unfolding res by simp
    qed
  qed
qed

lemma updateAll_each_throw:
  assumes "exact_selector env (state_symbol inst)"
    and "updateAll_each env cards earlier = (cards1, rendered1, None)"
    and "first_with_symbol (state_symbol inst) cards1 = Some i"
    and "thrown (renderInstrument env (cards1 ! i) inst) = Some error"
  shows "updateAll_each env cards (earlier @ inst # later) =
     (cards1[i := card_after (renderInstrument env (cards1 ! i) inst)], rendered1 @ [i],
      Some error)"
  using assms(2-4)
  by (simp add: updateAll_each_append updateAll_each_Cons [OF assms(1)] Let_def)

lemma exact_plain_symbols:
  "exact_selector nat_builtins (str ''BTCUSDT'')"
  "exact_selector nat_builtins (str ''ETHUSDT'')"
  by (simp_all add: exact_selector_def nat_builtins_def symbol_selector_def card_selector_def
      needs_no_escape_def str_def Let_def)

lemma ex_exact_selectors:
  "exact_selectors nat_builtins (instruments ex_manager_state)"
  "exact_selectors nat_builtins (instruments ex_manager_state_short)"
  using exact_plain_symbols
  by (simp_all add: exact_selectors_def ex_manager_state_def ex_manager_state_short_def
      ex_state_def ex_state_one_tp_def ex_state_eth_def)

lemma ex_updateAll:
  "updateAll nat_builtins ex_cards ex_manager_state =
     ([card_after (renderInstrument nat_builtins ex_card ex_state), ex_card_eth], [0], None)"
proof -
  have x: "exact_selector nat_builtins (state_symbol ex_state)"
    using exact_plain_symbols by (simp add: ex_state_def)
  have f: "first_with_symbol (state_symbol ex_state) ex_cards = Some 0"
    by (simp add: first_with_symbol_def ex_cards_def ex_card_def ex_state_def)
  have t: "thrown (renderInstrument nat_builtins ex_card ex_state) = None"
    by (simp add: render_thrown ex_card_def ex_state_def)
  have n: "ex_cards ! 0 = ex_card" "ex_cards[0 := c] = [c, ex_card_eth]" for c
    by (simp_all add: ex_cards_def)
  show ?thesis
    by (simp add: updateAll_def ex_manager_state_def updateAll_each_Cons [OF x] f n t Let_def)
qed

lemma ex_first_throws:
  "first_with_symbol (state_symbol ex_state_one_tp) ex_cards = Some 0"
  "thrown (renderInstrument nat_builtins (ex_cards ! 0) ex_state_one_tp) = Some TypeError"
  by (simp_all add: first_with_symbol_def render_thrown ex_cards_def ex_card_def
      ex_state_one_tp_def ex_state_def)

text \<open>
  Claim C9, as the script has it.  Take a response whose symbols have exact selectors.
  \<^verbatim>\<open>updateAll\<close> keeps the number of cards, and every card whose symbol is the
  symbol of no instrument of the response is left exactly as it was.  It takes the
  instruments in the order of the response and renders for each the first card of the
  page, in document order, that has its symbol: when no render throws, the cards
  rendered are those, in that order.  A render that throws ends the loop: the cards are
  those left by the instruments before it and by the render that threw, and no later
  instrument is looked up.  So the cards rendered are among those whose symbol is the
  symbol of some instrument, and they are exactly those when the symbols of the cards
  are pairwise distinct and no render throws.  When no symbol occurs twice in the
  response and no render throws, each card found for an instrument ends as
  \<^verbatim>\<open>renderInstrument\<close> leaves it for that instrument.
\<close>

theorem updateAll_renders_matching_cards:
  assumes "updateAll env cards managerState = (cards', rendered, e)"
    and "exact_selectors env (instruments managerState)"
  shows "length cards' = length cards
   \<and> (\<forall>i < length cards.
        data_symbol (cards ! i) \<notin> state_symbol ` set (instruments managerState) \<longrightarrow>
        cards' ! i = cards ! i)
   \<and> set rendered \<subseteq> {i. i < length cards
        \<and> data_symbol (cards ! i) \<in> state_symbol ` set (instruments managerState)}
   \<and> (e = None \<longrightarrow>
        rendered = List.map_filter (\<lambda>inst. first_with_symbol (state_symbol inst) cards)
          (instruments managerState))
   \<and> (\<forall>earlier inst later cards1 rendered1 i error.
        instruments managerState = earlier @ inst # later
        \<and> updateAll env cards \<lparr>instruments = earlier\<rparr> = (cards1, rendered1, None)
        \<and> first_with_symbol (state_symbol inst) cards1 = Some i
        \<and> thrown (renderInstrument env (cards1 ! i) inst) = Some error \<longrightarrow>
        cards' = cards1[i := card_after (renderInstrument env (cards1 ! i) inst)]
        \<and> rendered = rendered1 @ [i] \<and> e = Some error)
   \<and> (\<forall>s i. first_with_symbol s cards = Some i \<longleftrightarrow>
        i < length cards \<and> data_symbol (cards ! i) = s
        \<and> (\<forall>j < i. data_symbol (cards ! j) \<noteq> s))
   \<and> (distinct (map data_symbol cards) \<and> e = None \<longrightarrow>
        set rendered = {i. i < length cards
          \<and> data_symbol (cards ! i) \<in> state_symbol ` set (instruments managerState)})
   \<and> (distinct (map state_symbol (instruments managerState)) \<and> e = None \<longrightarrow>
        (\<forall>inst \<in> set (instruments managerState). \<forall>i.
           first_with_symbol (state_symbol inst) cards = Some i \<longrightarrow>
           cards' ! i = card_after (renderInstrument env (cards ! i) inst)))"
proof -
  let ?insts = "instruments managerState"
  let ?found = "{i. \<exists>inst \<in> set ?insts. first_with_symbol (state_symbol inst) cards = Some i}"
  let ?matching = "{i. i < length cards \<and> data_symbol (cards ! i) \<in> state_symbol ` set ?insts}"
  note x = assms(2)
  from assms(1) have all: "updateAll_each env cards ?insts = (cards', rendered, e)"
    by (simp add: updateAll_def)
  then have res: "fst (updateAll_each env cards ?insts) = cards'"
    "fst (snd (updateAll_each env cards ?insts)) = rendered"
    "snd (snd (updateAll_each env cards ?insts)) = e"
    by simp_all
  have "length (map data_symbol cards') = length (map data_symbol cards)"
    using updateAll_each_symbols [OF x, of cards] by (simp only: res)
  then have len: "length cards' = length cards"
    by simp
  have frame: "\<forall>i < length cards. data_symbol (cards ! i) \<notin> state_symbol ` set ?insts \<longrightarrow>
      cards' ! i = cards ! i"
    using updateAll_each_frame [OF x, of _ cards] by (simp add: res)
  have sub: "?found \<subseteq> ?matching"
    by (auto simp add: first_with_symbol_Some)
  have sup: "?matching \<subseteq> ?found" if d: "distinct (map data_symbol cards)"
  proof
    fix i
    assume "i \<in> ?matching"
    then obtain inst where "i < length cards" and "inst \<in> set ?insts"
      and "data_symbol (cards ! i) = state_symbol inst"
      by auto
    with first_with_symbol_distinct [OF d, of i] show "i \<in> ?found"
      by auto
  qed
  from updateAll_each_rendered [OF x, of cards]
  have r1: "set rendered \<subseteq> ?found" and r2: "e = None \<longrightarrow> rendered = found_cards cards ?insts"
    by (simp_all add: res set_found_cards)
  from r1 sub have a: "set rendered \<subseteq> ?matching"
    by (rule subset_trans)
  from r2 have order: "e = None \<longrightarrow>
      rendered = List.map_filter (\<lambda>inst. first_with_symbol (state_symbol inst) cards) ?insts"
    by (simp add: found_cards_map_filter)
  have throw: "\<forall>earlier inst later cards1 rendered1 i error.
        ?insts = earlier @ inst # later
        \<and> updateAll env cards \<lparr>instruments = earlier\<rparr> = (cards1, rendered1, None)
        \<and> first_with_symbol (state_symbol inst) cards1 = Some i
        \<and> thrown (renderInstrument env (cards1 ! i) inst) = Some error \<longrightarrow>
        cards' = cards1[i := card_after (renderInstrument env (cards1 ! i) inst)]
        \<and> rendered = rendered1 @ [i] \<and> e = Some error"
  proof (intro allI impI)
    fix earlier inst later cards1 rendered1 i error
    assume h: "?insts = earlier @ inst # later
        \<and> updateAll env cards \<lparr>instruments = earlier\<rparr> = (cards1, rendered1, None)
        \<and> first_with_symbol (state_symbol inst) cards1 = Some i
        \<and> thrown (renderInstrument env (cards1 ! i) inst) = Some error"
    with x have "exact_selector env (state_symbol inst)"
      by (simp add: exact_selectors_def)
    moreover from h have "updateAll_each env cards earlier = (cards1, rendered1, None)"
      by (simp add: updateAll_def)
    ultimately have "updateAll_each env cards (earlier @ inst # later) =
        (cards1[i := card_after (renderInstrument env (cards1 ! i) inst)], rendered1 @ [i],
         Some error)"
      using h by (intro updateAll_each_throw) simp_all
    with h all show "cards' = cards1[i := card_after (renderInstrument env (cards1 ! i) inst)]
        \<and> rendered = rendered1 @ [i] \<and> e = Some error"
      by simp
  qed
  have first: "\<forall>s i. first_with_symbol s cards = Some i \<longleftrightarrow>
        i < length cards \<and> data_symbol (cards ! i) = s
        \<and> (\<forall>j < i. data_symbol (cards ! j) \<noteq> s)"
    by (simp add: first_with_symbol_Some)
  from r2 have "e = None \<longrightarrow> set rendered = ?found"
    by (simp add: set_found_cards)
  with sub sup have b: "distinct (map data_symbol cards) \<and> e = None \<longrightarrow> set rendered = ?matching"
    by blast
  have c: "distinct (map state_symbol ?insts) \<and> e = None \<longrightarrow>
        (\<forall>inst \<in> set ?insts. \<forall>i. first_with_symbol (state_symbol inst) cards = Some i \<longrightarrow>
           cards' ! i = card_after (renderInstrument env (cards ! i) inst))"
    using updateAll_each_content [OF x, of cards] by (simp add: res)
  show ?thesis
    by (intro conjI len frame a order throw first b c)
qed

theorem updateAll_renders_matching_cards_witness:
  "exact_selectors nat_builtins (instruments ex_manager_state)
   \<and> updateAll nat_builtins ex_cards ex_manager_state =
       ([card_after (renderInstrument nat_builtins ex_card ex_state), ex_card_eth], [0], None)
   \<and> distinct (map data_symbol ex_cards)
   \<and> data_symbol (ex_cards ! 1) \<notin> state_symbol ` set (instruments ex_manager_state)
   \<and> [card_after (renderInstrument nat_builtins ex_card ex_state), ex_card_eth] ! 1 = ex_cards ! 1
   \<and> set [0] = {i. i < length ex_cards
        \<and> data_symbol (ex_cards ! i) \<in> state_symbol ` set (instruments ex_manager_state)}
   \<and> exact_selectors nat_builtins (instruments ex_manager_state_short)
   \<and> first_with_symbol (state_symbol ex_state_one_tp) ex_cards = Some 0
   \<and> thrown (renderInstrument nat_builtins (ex_cards ! 0) ex_state_one_tp) = Some TypeError
   \<and> updateAll nat_builtins ex_cards ex_manager_state_short =
       (ex_cards[0 := card_after (renderInstrument nat_builtins (ex_cards ! 0) ex_state_one_tp)],
        [0], Some TypeError)"
proof -
  have d1: "distinct (map data_symbol ex_cards)"
    by (simp add: ex_cards_def ex_card_eth_def ex_card_def str_def)
  have n: "data_symbol (ex_cards ! 1) \<notin> state_symbol ` set (instruments ex_manager_state)"
    by (simp add: ex_cards_def ex_card_eth_def ex_manager_state_def ex_state_def str_def)
  have l: "(1::nat) < length ex_cards"
    by (simp add: ex_cards_def)
  note w = updateAll_renders_matching_cards [OF ex_updateAll ex_exact_selectors(1)]
  note frame = w [THEN conjunct2, THEN conjunct1, rule_format]
  note exact = w [THEN conjunct2, THEN conjunct2, THEN conjunct2, THEN conjunct2,
      THEN conjunct2, THEN conjunct2, THEN conjunct1, rule_format]
  from l n
  have a: "[card_after (renderInstrument nat_builtins ex_card ex_state), ex_card_eth] ! 1
      = ex_cards ! 1"
    by (rule frame)
  from d1
  have b: "set [0] = {i. i < length ex_cards
        \<and> data_symbol (ex_cards ! i) \<in> state_symbol ` set (instruments ex_manager_state)}"
    by (intro exact) simp
  let ?u = "updateAll nat_builtins ex_cards ex_manager_state_short"
  have split: "instruments ex_manager_state_short = [] @ ex_state_one_tp # [ex_state_eth]"
    by (simp add: ex_manager_state_short_def)
  have start: "updateAll nat_builtins ex_cards \<lparr>instruments = []\<rparr> = (ex_cards, [], None)"
    by (simp add: updateAll_def)
  have "?u = (fst ?u, fst (snd ?u), snd (snd ?u))"
    by simp
  note w' = updateAll_renders_matching_cards [OF this ex_exact_selectors(2)]
  note throw = w' [THEN conjunct2, THEN conjunct2, THEN conjunct2, THEN conjunct2,
      THEN conjunct1, rule_format]
  have "fst ?u = ex_cards[0 := card_after (renderInstrument nat_builtins (ex_cards ! 0)
          ex_state_one_tp)]
      \<and> fst (snd ?u) = [] @ [0] \<and> snd (snd ?u) = Some TypeError"
    by (rule throw [where earlier = "[]" and later = "[ex_state_eth]"])
       (intro conjI split start ex_first_throws)
  then have c: "?u =
       (ex_cards[0 := card_after (renderInstrument nat_builtins (ex_cards ! 0) ex_state_one_tp)],
        [0], Some TypeError)"
    by (simp add: prod_eq_iff)
  show ?thesis
    by (intro conjI ex_exact_selectors ex_updateAll d1 n a b ex_first_throws c)
qed

text \<open>
  The claim as the specification states it, that exactly the cards with a matching
  symbol are rendered, fails in three ways.  When the render of the first instrument
  throws, the card of the second instrument is not rendered although its symbol
  matches.  Of two cards with the same symbol only the first is rendered.  And for a
  symbol with a double quote the selector is refused: the lookup throws, and the card
  with that very symbol is not rendered.
\<close>

theorem updateAll_first_match_counterexample:
  "updateAll nat_builtins ex_cards ex_manager_state_short =
     ([card_after (renderInstrument nat_builtins ex_card ex_state_one_tp), ex_card_eth],
      [0], Some TypeError)
   \<and> data_symbol (ex_cards ! 1) \<in> state_symbol ` set (instruments ex_manager_state_short)
   \<and> updateAll nat_builtins ex_cards_same_symbol ex_manager_state =
     ([card_after (renderInstrument nat_builtins ex_card ex_state), ex_card], [0], None)
   \<and> data_symbol (ex_cards_same_symbol ! 1) \<in> state_symbol ` set (instruments ex_manager_state)
   \<and> updateAll nat_builtins [ex_card_quoted] ex_manager_state_quoted =
     ([ex_card_quoted], [], Some SyntaxError)
   \<and> data_symbol ([ex_card_quoted] ! 0) \<in> state_symbol ` set (instruments ex_manager_state_quoted)"
proof -
  have x: "exact_selector nat_builtins (state_symbol ex_state_one_tp)"
    using exact_plain_symbols by (simp add: ex_state_one_tp_def ex_state_def)
  have n: "ex_cards ! 0 = ex_card" "ex_cards[0 := c] = [c, ex_card_eth]" for c
    by (simp_all add: ex_cards_def)
  have a: "updateAll nat_builtins ex_cards ex_manager_state_short =
     ([card_after (renderInstrument nat_builtins ex_card ex_state_one_tp), ex_card_eth],
      [0], Some TypeError)"
    using ex_first_throws
    by (simp add: updateAll_def ex_manager_state_short_def updateAll_each_Cons [OF x] n Let_def)
  have b: "data_symbol (ex_cards ! 1) \<in> state_symbol ` set (instruments ex_manager_state_short)"
    by (simp add: ex_cards_def ex_card_eth_def ex_manager_state_short_def ex_state_eth_def)
  have x': "exact_selector nat_builtins (state_symbol ex_state)"
    using exact_plain_symbols by (simp add: ex_state_def)
  have f': "first_with_symbol (state_symbol ex_state) ex_cards_same_symbol = Some 0"
    by (simp add: first_with_symbol_def ex_cards_same_symbol_def ex_card_def ex_state_def)
  have t': "thrown (renderInstrument nat_builtins ex_card ex_state) = None"
    by (simp add: render_thrown ex_card_def ex_state_def)
  have n': "ex_cards_same_symbol ! 0 = ex_card" "ex_cards_same_symbol[0 := c] = [c, ex_card]" for c
    by (simp_all add: ex_cards_same_symbol_def)
  have c: "updateAll nat_builtins ex_cards_same_symbol ex_manager_state =
     ([card_after (renderInstrument nat_builtins ex_card ex_state), ex_card], [0], None)"
    by (simp add: updateAll_def ex_manager_state_def updateAll_each_Cons [OF x'] f' n' t' Let_def)
  have d: "data_symbol (ex_cards_same_symbol ! 1)
      \<in> state_symbol ` set (instruments ex_manager_state)"
    by (simp add: ex_cards_same_symbol_def ex_manager_state_def ex_card_def ex_state_def)
  have "css_match nat_builtins (card_selector [65, 34, 66]) = None"
    by (simp add: nat_builtins_def symbol_selector_def card_selector_def needs_no_escape_def
        str_def Let_def)
  then have e: "updateAll nat_builtins [ex_card_quoted] ex_manager_state_quoted =
     ([ex_card_quoted], [], Some SyntaxError)"
    by (simp add: ex_manager_state_quoted_def refused_selector_ends_loop)
  have f: "data_symbol ([ex_card_quoted] ! 0)
      \<in> state_symbol ` set (instruments ex_manager_state_quoted)"
    by (simp add: ex_card_quoted_def ex_manager_state_quoted_def)
  show ?thesis
    by (intro conjI a b c d e f)
qed

end
